theory Spec2Isabelle
  imports Complex_Main
begin

section \<open>The dashboard of \<open>src/App.jsx\<close>\<close>

text \<open>
  The component \<open>App\<close> keeps its data in React state, persists two of the values in
  \<open>localStorage\<close> and talks to three HTTP services. The model below follows the source
  function by function.

  \<^item> Text is a \<open>string\<close>; a character stands for one code unit below 256.
  \<^item> An asynchronous function is modelled by the list of effects it performs, in
    order (\<open>event\<close>). The environment it runs against (what the endpoint answers at
    each attempt, what \<open>Math.random()\<close> yields, what the geolocation service says)
    is a parameter.
  \<^item> A function of the component reads the state through the values captured by the
    render that created it; that render is the \<open>dashboard\<close> argument named \<open>r\<close>.
    State setters act on the live state, which \<open>run\<close> threads through the events.
  \<^item> A thrown \<open>Error\<close> is a value: \<open>Thrown msg\<close> carries its \<open>message\<close>.
\<close>

subsection \<open>Constants of the module\<close>

record wallpaper_preset =
  name :: string
  url :: string

definition WALLPAPERS :: "wallpaper_preset list" where
  "WALLPAPERS =
    [\<lparr>name = ''Mountain Lake'',
      url = ''https://images.unsplash.com/photo-1550684848-fac1c5b4e853?q=80&w=2070&auto=format&fit=crop''\<rparr>,
     \<lparr>name = ''Midnight City'',
      url = ''https://images.unsplash.com/photo-1514525253440-b393452e8d26?q=80&w=2000&auto=format&fit=crop''\<rparr>,
     \<lparr>name = ''Forest Mist'',
      url = ''https://images.unsplash.com/photo-1511497584788-876760111969?q=80&w=2000&auto=format&fit=crop''\<rparr>,
     \<lparr>name = ''Ocean Sunset'',
      url = ''https://images.unsplash.com/photo-1507525428034-b723cf961d3e?q=80&w=2000&auto=format&fit=crop''\<rparr>]"

record settings_record =
  userName :: string
  userEmail :: string
  apiKey :: string
  pollinationsApiKey :: string
  profilePictureUrl :: string
  location :: string
  isAutoLocation :: bool
  is24Hour :: bool
  unit :: string
  wallpaper :: string
  aiSearchModel :: string

definition DEFAULT_SETTINGS :: settings_record where
  "DEFAULT_SETTINGS =
    \<lparr>userName = ''Guest'',
     userEmail = ''guest@example.com'',
     apiKey = '''',
     pollinationsApiKey = '''',
     profilePictureUrl = ''https://api.dicebear.com/7.x/avataaars/svg?seed=Guest'',
     location = ''Rochester, MN'',
     isAutoLocation = False,
     is24Hour = False,
     unit = ''F'',
     wallpaper = url (WALLPAPERS ! 0),
     aiSearchModel = ''gemini-search''\<rparr>"

subsection \<open>State, requests and effects\<close>

datatype temp_value = TempNumber int | TempString string

record weather_snapshot =
  temp :: temp_value
  condition :: string
  location_label :: string
  icon :: string
  humidity :: real
  wind :: real

text \<open>The state of \<open>App\<close> (its \<open>useState\<close> cells that the modelled functions touch)
  together with the browser's \<open>localStorage\<close>.\<close>

record dashboard =
  settings :: settings_record
  notes_text :: string
  weather :: "weather_snapshot option"
  loadingWeather :: bool
  aiChatQuery :: string
  aiChatResponse :: string
  isAIChatting :: bool
  aiSearchQuery :: string
  aiSearchResponse :: string
  isAISearching :: bool
  wallpaperPrompt :: string
  isGeneratingWallpaper :: bool
  settingsMessage :: "string option"
  localStorage :: "string \<rightharpoonup> string"

datatype weather_query = ByCity string | ByCoords real real

text \<open>The three requests of the source. \<open>ChatPost key model prompt\<close> is the POST to
  \<open>https://enter.pollinations.ai/api/generate/v1/chat/completions\<close> with the bearer
  credential \<open>key\<close> and the body \<open>{model, messages: [{role: "user", content: prompt}],
  stream: false}\<close>; \<open>ImagePost key prompt model width height\<close> is the POST to
  \<open>https://enter.pollinations.ai/api/generate/image\<close>; \<open>WeatherGet q appid units\<close> is
  the GET of \<open>https://api.openweathermap.org/data/2.5/weather\<close>.\<close>

datatype request =
    ChatPost string string string
  | ImagePost string string string nat nat
  | WeatherGet weather_query string string

text \<open>What reading a response gives: \<open>await res.json()\<close> followed by the field accesses
  of the source either throws (\<open>Throws message\<close>) or yields the value read.\<close>

datatype 'a reading = Throws string | Reads 'a

text \<open>What \<open>await fetch(...)\<close> gives: the promise rejects with an error, or there is a
  response with a status; \<open>res.ok\<close> is true for the statuses 200 to 299.\<close>

datatype 'a http_result = Rejects string | Response nat "'a reading"

definition ok :: "nat \<Rightarrow> bool" where
  "ok status \<longleftrightarrow> 200 \<le> status \<and> status \<le> 299"

datatype geolocation = Denied | Coords real real

text \<open>The length of a pause is a double that the source computes with \<open>*\<close> and \<open>+\<close>,
  each of which rounds its exact result to a nearest double. The model keeps the
  computation: \<open>Lit x\<close> is a double at hand (a literal, a whole power of two, a value
  of \<open>Math.random()\<close>), \<open>Mul\<close> and \<open>Add\<close> are the two operations. \<open>double fl n\<close> is
  the value of \<open>n\<close> when \<open>fl\<close> is the rounding of an exact result to a double.\<close>

datatype number = Lit real | Mul number number | Add number number

fun double :: "(real \<Rightarrow> real) \<Rightarrow> number \<Rightarrow> real" where
  "double fl (Lit x) = x"
| "double fl (Mul a b) = fl (double fl a * double fl b)"
| "double fl (Add a b) = fl (double fl a + double fl b)"

datatype event =
    Fetch request
  | Sleep number
  | ConsoleWarn number
  | GetCurrentPosition
  | SetTimeout nat "event list"
  | SetAiChatQuery string
  | SetAiChatResponse string
  | SetIsAIChatting bool
  | SetAiSearchQuery string
  | SetAiSearchResponse string
  | SetIsAISearching bool
  | SetSettingsMessage string
  | SetSettingsWallpaper string
  | SetWallpaperPrompt string
  | SetIsGeneratingWallpaper bool
  | SetLoadingWeather bool
  | SetWeather weather_snapshot

subsection \<open>Text helpers\<close>

text \<open>The decimal text of a number, as a template literal inserts \<open>res.status\<close>.\<close>

fun show_nat :: "nat \<Rightarrow> string" where
  "show_nat n =
     (if n < 10 then [char_of (48 + n)]
      else show_nat (n div 10) @ [char_of (48 + n mod 10)])"

declare show_nat.simps [simp del]

text \<open>\<open>String.prototype.trim\<close> on code units below 256: tab, line feed, vertical tab,
  form feed, carriage return, space and no-break space are white space.\<close>

definition is_space :: "char \<Rightarrow> bool" where
  "is_space c \<longleftrightarrow> (of_char c :: nat) \<in> {9, 10, 11, 12, 13, 32, 160}"

definition trim :: "string \<Rightarrow> string" where
  "trim s = rev (dropWhile is_space (rev (dropWhile is_space s)))"

subsection \<open>The chat call: \<open>callPollinationsChatAPI\<close>\<close>

definition maxRetries :: nat where
  "maxRetries = 3"

definition setResponse :: "bool \<Rightarrow> string \<Rightarrow> event" where
  "setResponse isSearch text =
     (if isSearch then SetAiSearchResponse text else SetAiChatResponse text)"

definition setBusy :: "bool \<Rightarrow> bool \<Rightarrow> event" where
  "setBusy isSearch b = (if isSearch then SetIsAISearching b else SetIsAIChatting b)"

text \<open>How the \<open>try\<close> block of one loop iteration ends.\<close>

datatype completion = Returned string | Continue | Thrown string

text \<open>The value read from a successful response is
  \<open>data.choices?.[0]?.message?.content\<close>, \<open>None\<close> when the chain gives \<open>undefined\<close>.
  \<open>responseText\<close> is \<open>content || "No response received from AI."\<close>: an empty
  content is falsy and is replaced like a missing one.\<close>

definition responseText :: "string option \<Rightarrow> string" where
  "responseText content =
     (case content of
        None \<Rightarrow> ''No response received from AI.''
      | Some c \<Rightarrow> if c = [] then ''No response received from AI.'' else c)"

text \<open>The message of the one general failure that the loop throws, the template
  \<open>API call failed with status: ${res.status}\<close>.\<close>

definition api_call_failed :: "nat \<Rightarrow> string" where
  "api_call_failed status = ''API call failed with status: '' @ show_nat status"

text \<open>The \<open>try\<close> block of the iteration \<open>attempt\<close>. The endpoint's answer to this
  attempt is \<open>endpoint attempt\<close>, and \<open>random attempt\<close> is what \<open>Math.random()\<close>
  yields if this attempt draws a delay. The delay is
  \<open>Math.pow(2, attempt) * 1000 + Math.random() * 1000\<close>.\<close>

definition try_attempt ::
  "dashboard \<Rightarrow> (nat \<Rightarrow> string option http_result) \<Rightarrow> (nat \<Rightarrow> real) \<Rightarrow>
   string \<Rightarrow> string \<Rightarrow> bool \<Rightarrow> nat \<Rightarrow> event list \<times> completion" where
  "try_attempt r endpoint random prompt model isSearch attempt =
     (let req = Fetch (ChatPost (pollinationsApiKey (settings r)) model prompt) in
      case endpoint attempt of
        Rejects msg \<Rightarrow> ([req], Thrown msg)
      | Response status rd \<Rightarrow>
          if \<not> ok status then
            if status = 401 then ([req], Thrown ''Authentication failed. Check your API key.'')
            else if status = 429 \<and> attempt < maxRetries - 1 then
              (let delay = Add (Mul (Lit (2 ^ attempt)) (Lit 1000))
                               (Mul (Lit (random attempt)) (Lit 1000))
               in ([req, ConsoleWarn delay, Sleep delay], Continue))
            else ([req], Thrown (api_call_failed status))
          else
            (case rd of
               Throws msg \<Rightarrow> ([req], Thrown msg)
             | Reads content \<Rightarrow>
                 ([req, setResponse isSearch (responseText content)],
                  Returned (responseText content))))"

text \<open>The \<open>finally\<close> block: it tests the loop counter and the two busy flags as the
  render \<open>r\<close> captured them.\<close>

definition finally_block :: "dashboard \<Rightarrow> bool \<Rightarrow> nat \<Rightarrow> event list" where
  "finally_block r isSearch attempt =
     (if attempt = maxRetries - 1 \<or> (\<not> isAIChatting r \<and> \<not> isAISearching r)
      then [setBusy isSearch False] else [])"

text \<open>The \<open>for\<close> loop from \<open>attempt\<close> on. The result is the effects and the value
  returned (\<open>None\<close> when the loop ends without a \<open>return\<close>).\<close>

function retry_loop ::
  "dashboard \<Rightarrow> (nat \<Rightarrow> string option http_result) \<Rightarrow> (nat \<Rightarrow> real) \<Rightarrow>
   string \<Rightarrow> string \<Rightarrow> bool \<Rightarrow> nat \<Rightarrow> event list \<times> string option" where
  "retry_loop r endpoint random prompt model isSearch attempt =
     (if attempt < maxRetries then
        (case try_attempt r endpoint random prompt model isSearch attempt of
           (evs, Returned text) \<Rightarrow>
             (evs @ finally_block r isSearch attempt, Some text)
         | (evs, Thrown msg) \<Rightarrow>
             (let errMsg = ''AI Error: '' @ msg
              in (evs @ [setResponse isSearch errMsg] @ finally_block r isSearch attempt,
                  Some errMsg))
         | (evs, Continue) \<Rightarrow>
             (let (evs', ret) = retry_loop r endpoint random prompt model isSearch (attempt + 1)
              in (evs @ finally_block r isSearch attempt @ evs', ret)))
      else ([], None))"
  by pat_completeness auto
termination
  by (relation "measure (\<lambda>(r, endpoint, random, prompt, model, isSearch, attempt).
        maxRetries - attempt)") auto

declare retry_loop.simps [simp del]

definition callPollinationsChatAPI ::
  "dashboard \<Rightarrow> (nat \<Rightarrow> string option http_result) \<Rightarrow> (nat \<Rightarrow> real) \<Rightarrow>
   string \<Rightarrow> string \<Rightarrow> bool \<Rightarrow> event list \<times> string option" where
  "callPollinationsChatAPI r endpoint random prompt model isSearch =
     (if pollinationsApiKey (settings r) = [] then
        ([setResponse isSearch ''Error: Pollinations API Key not set in settings.''], None)
      else
        (let (evs, ret) = retry_loop r endpoint random prompt model isSearch 0
         in (setBusy isSearch True # evs, ret)))"

subsection \<open>Persistence: the two \<open>localStorage\<close> effects\<close>

text \<open>\<open>JSON.stringify\<close> of a string: the quotation mark and the reverse solidus are
  escaped, the control characters below 32 are written as \<open>\b \t \n \f \r\<close> or as a
  \<open>\u00XX\<close> escape, every other code unit is copied.\<close>

definition hex_digit :: "nat \<Rightarrow> char" where
  "hex_digit d = (if d < 10 then char_of (48 + d) else char_of (87 + d))"

definition escape_char :: "char \<Rightarrow> string" where
  "escape_char c =
     (let n = (of_char c :: nat); bs = char_of (92 :: nat) in
      if n = 34 then [bs, c]
      else if n = 92 then [bs, c]
      else if n = 8 then [bs, CHR ''b'']
      else if n = 9 then [bs, CHR ''t'']
      else if n = 10 then [bs, CHR ''n'']
      else if n = 12 then [bs, CHR ''f'']
      else if n = 13 then [bs, CHR ''r'']
      else if n < 32 then [bs, CHR ''u'', CHR ''0'', CHR ''0'', hex_digit (n div 16), hex_digit (n mod 16)]
      else [c])"

definition quote :: "string \<Rightarrow> string" where
  "quote s = [char_of (34 :: nat)] @ concat (map escape_char s) @ [char_of (34 :: nat)]"

definition json_member :: "string \<Rightarrow> string \<Rightarrow> string" where
  "json_member k v = quote k @ '':'' @ v"

definition json_bool :: "bool \<Rightarrow> string" where
  "json_bool b = (if b then ''true'' else ''false'')"

text \<open>\<open>JSON.stringify(settings)\<close> for a record of the shape of \<open>DEFAULT_SETTINGS\<close>:
  the properties in their insertion order, which the spread \<open>{...settings, k: v}\<close>
  keeps.\<close>

definition JSON_stringify :: "settings_record \<Rightarrow> string" where
  "JSON_stringify s =
     ''{'' @ json_member ''userName'' (quote (userName s)) @
     '','' @ json_member ''userEmail'' (quote (userEmail s)) @
     '','' @ json_member ''apiKey'' (quote (apiKey s)) @
     '','' @ json_member ''pollinationsApiKey'' (quote (pollinationsApiKey s)) @
     '','' @ json_member ''profilePictureUrl'' (quote (profilePictureUrl s)) @
     '','' @ json_member ''location'' (quote (location s)) @
     '','' @ json_member ''isAutoLocation'' (json_bool (isAutoLocation s)) @
     '','' @ json_member ''is24Hour'' (json_bool (is24Hour s)) @
     '','' @ json_member ''unit'' (quote (unit s)) @
     '','' @ json_member ''wallpaper'' (quote (wallpaper s)) @
     '','' @ json_member ''aiSearchModel'' (quote (aiSearchModel s)) @ ''}''"

text \<open>\<open>setSettings(s)\<close> followed by the render it causes. The new record is a new
  object, so the dependency \<open>[settings]\<close> of the first effect has changed and the
  effect runs: \<open>localStorage.setItem('dashboardSettings', JSON.stringify(settings))\<close>.
  (The effect on \<open>[settings.location, settings.apiKey, settings.unit,
  settings.isAutoLocation]\<close> starts \<open>fetchWeather\<close>, whose effects are modelled on
  their own below; they touch neither \<open>settings\<close> nor \<open>localStorage\<close>.)
  A \<open>setItem\<close> that the browser refuses (quota) is not modelled.\<close>

definition setSettings :: "settings_record \<Rightarrow> dashboard \<Rightarrow> dashboard" where
  "setSettings s st =
     st\<lparr>settings := s,
        localStorage := (localStorage st)(''dashboardSettings'' \<mapsto> JSON_stringify s)\<rparr>"

text \<open>\<open>setNotes(v)\<close> followed by the render: a string equal to the current one leaves
  the dependency \<open>[notes]\<close> unchanged and the second effect does not run; otherwise
  \<open>localStorage.setItem('dashboardNotes', notes)\<close> runs.\<close>

definition setNotes :: "string \<Rightarrow> dashboard \<Rightarrow> dashboard" where
  "setNotes v st =
     (if v = notes_text st then st
      else st\<lparr>notes_text := v,
              localStorage := (localStorage st)(''dashboardNotes'' \<mapsto> v)\<rparr>)"

text \<open>The first render is followed by both effects, so from then on both keys are
  written.\<close>

definition mount :: "dashboard \<Rightarrow> dashboard" where
  "mount st =
     st\<lparr>localStorage := (localStorage st)
          (''dashboardSettings'' \<mapsto> JSON_stringify (settings st),
           ''dashboardNotes'' \<mapsto> notes_text st)\<rparr>"

text \<open>The store agrees with the state: it holds the serialised settings and the
  notes.\<close>

definition persisted :: "dashboard \<Rightarrow> bool" where
  "persisted st \<longleftrightarrow>
     localStorage st ''dashboardSettings'' = Some (JSON_stringify (settings st)) \<and>
     localStorage st ''dashboardNotes'' = Some (notes_text st)"

text \<open>The controls of the settings dialog that change the record, one constructor
  per \<open>onChange\<close>/\<open>onClick\<close> handler of the source. The dialog offers one
  \<open>PresetClick wp\<close> for each \<open>wp\<close> of \<open>WALLPAPERS\<close>.\<close>

datatype settings_input =
    DisplayNameInput string
  | ProfilePictureUrlInput string
  | OpenWeatherMapKeyInput string
  | PollinationsKeyInput string
  | UnitButton string
  | AutoDetectCheckbox bool
  | CityNameInput string
  | PresetClick wallpaper_preset
  | ClockFormatButton
  | AiSearchModelSelect string

fun onSettingsInput :: "settings_input \<Rightarrow> dashboard \<Rightarrow> dashboard" where
  "onSettingsInput (DisplayNameInput v) st = setSettings ((settings st)\<lparr>userName := v\<rparr>) st"
| "onSettingsInput (ProfilePictureUrlInput v) st =
     setSettings ((settings st)\<lparr>profilePictureUrl := v\<rparr>) st"
| "onSettingsInput (OpenWeatherMapKeyInput v) st = setSettings ((settings st)\<lparr>apiKey := v\<rparr>) st"
| "onSettingsInput (PollinationsKeyInput v) st =
     setSettings ((settings st)\<lparr>pollinationsApiKey := v\<rparr>) st"
| "onSettingsInput (UnitButton u) st = setSettings ((settings st)\<lparr>unit := u\<rparr>) st"
| "onSettingsInput (AutoDetectCheckbox b) st =
     setSettings ((settings st)\<lparr>isAutoLocation := b\<rparr>) st"
| "onSettingsInput (CityNameInput v) st = setSettings ((settings st)\<lparr>location := v\<rparr>) st"
| "onSettingsInput (PresetClick wp) st =
     (setSettings ((settings st)\<lparr>wallpaper := url wp\<rparr>) st)
       \<lparr>settingsMessage := Some ''Preset wallpaper applied.''\<rparr>"
| "onSettingsInput ClockFormatButton st =
     setSettings ((settings st)\<lparr>is24Hour := \<not> is24Hour (settings st)\<rparr>) st"
| "onSettingsInput (AiSearchModelSelect v) st =
     setSettings ((settings st)\<lparr>aiSearchModel := v\<rparr>) st"

subsection \<open>Running effects on the state\<close>

text \<open>What each effect does to the live state. \<open>SetSettingsWallpaper u\<close> is the
  functional update \<open>setSettings(prev => ({...prev, wallpaper: u}))\<close>. The callback of
  a timer runs when the timer fires; the requests, the pauses and the console do not
  change the state.\<close>

fun apply_event :: "event \<Rightarrow> dashboard \<Rightarrow> dashboard" where
  "apply_event (SetTimeout ms callback) st = fold apply_event callback st"
| "apply_event (SetAiChatQuery v) st = st\<lparr>aiChatQuery := v\<rparr>"
| "apply_event (SetAiChatResponse v) st = st\<lparr>aiChatResponse := v\<rparr>"
| "apply_event (SetIsAIChatting b) st = st\<lparr>isAIChatting := b\<rparr>"
| "apply_event (SetAiSearchQuery v) st = st\<lparr>aiSearchQuery := v\<rparr>"
| "apply_event (SetAiSearchResponse v) st = st\<lparr>aiSearchResponse := v\<rparr>"
| "apply_event (SetIsAISearching b) st = st\<lparr>isAISearching := b\<rparr>"
| "apply_event (SetSettingsMessage v) st = st\<lparr>settingsMessage := Some v\<rparr>"
| "apply_event (SetSettingsWallpaper u) st = setSettings ((settings st)\<lparr>wallpaper := u\<rparr>) st"
| "apply_event (SetWallpaperPrompt v) st = st\<lparr>wallpaperPrompt := v\<rparr>"
| "apply_event (SetIsGeneratingWallpaper b) st = st\<lparr>isGeneratingWallpaper := b\<rparr>"
| "apply_event (SetLoadingWeather b) st = st\<lparr>loadingWeather := b\<rparr>"
| "apply_event (SetWeather w) st = st\<lparr>weather := Some w\<rparr>"
| "apply_event (Fetch req) st = st"
| "apply_event (Sleep d) st = st"
| "apply_event (ConsoleWarn d) st = st"
| "apply_event GetCurrentPosition st = st"

definition run :: "event list \<Rightarrow> dashboard \<Rightarrow> dashboard" where
  "run evs st = fold apply_event evs st"

text \<open>The successive states: the one before the first effect, then the one after
  each effect.\<close>

fun states :: "event list \<Rightarrow> dashboard \<Rightarrow> dashboard list" where
  "states [] st = [st]"
| "states (e # es) st = st # states es (apply_event e st)"

text \<open>The requests sent, those of timer callbacks included, and the pauses taken.\<close>

fun fetches :: "event list \<Rightarrow> request list" where
  "fetches [] = []"
| "fetches (Fetch req # es) = req # fetches es"
| "fetches (SetTimeout ms callback # es) = fetches callback @ fetches es"
| "fetches (e # es) = fetches es"

fun sleeps :: "event list \<Rightarrow> number list" where
  "sleeps [] = []"
| "sleeps (Sleep d # es) = d # sleeps es"
| "sleeps (e # es) = sleeps es"

text \<open>The texts written to the response field of a widget, and the values written to
  its busy flag.\<close>

fun responses :: "bool \<Rightarrow> event list \<Rightarrow> string list" where
  "responses isSearch [] = []"
| "responses isSearch (SetAiChatResponse v # es) =
     (if isSearch then responses isSearch es else v # responses isSearch es)"
| "responses isSearch (SetAiSearchResponse v # es) =
     (if isSearch then v # responses isSearch es else responses isSearch es)"
| "responses isSearch (e # es) = responses isSearch es"

fun busy_writes :: "bool \<Rightarrow> event list \<Rightarrow> bool list" where
  "busy_writes isSearch [] = []"
| "busy_writes isSearch (SetIsAIChatting b # es) =
     (if isSearch then busy_writes isSearch es else b # busy_writes isSearch es)"
| "busy_writes isSearch (SetIsAISearching b # es) =
     (if isSearch then b # busy_writes isSearch es else busy_writes isSearch es)"
| "busy_writes isSearch (e # es) = busy_writes isSearch es"

definition busy :: "bool \<Rightarrow> dashboard \<Rightarrow> bool" where
  "busy isSearch st = (if isSearch then isAISearching st else isAIChatting st)"

text \<open>How often a sequence of flag values goes from true to false.\<close>

fun falls :: "bool list \<Rightarrow> nat" where
  "falls (a # b # bs) = (if a \<and> \<not> b then 1 else 0) + falls (b # bs)"
| "falls bs = 0"

subsection \<open>The submit handlers of the two AI widgets\<close>

text \<open>An \<open>async\<close> function runs synchronously up to its first \<open>await\<close>. The first
  \<open>await\<close> of \<open>callPollinationsChatAPI\<close> is the one on \<open>fetch\<close>, so the caller's next
  statement runs just after the first request has been sent. The handlers start with
  \<open>e.preventDefault()\<close>, which touches no state and has no event here; a prompt that
  is empty after \<open>trim()\<close> ends the handler at once.\<close>

fun until_first_await :: "event list \<Rightarrow> event list \<times> event list" where
  "until_first_await [] = ([], [])"
| "until_first_await (Fetch req # es) = ([Fetch req], es)"
| "until_first_await (e # es) = (let (a, b) = until_first_await es in (e # a, b))"

definition handleAIChatSubmit ::
  "dashboard \<Rightarrow> (nat \<Rightarrow> string option http_result) \<Rightarrow> (nat \<Rightarrow> real) \<Rightarrow> event list" where
  "handleAIChatSubmit r endpoint random =
     (if trim (aiChatQuery r) = [] then []
      else
        (let (started, rest) = until_first_await
               (fst (callPollinationsChatAPI r endpoint random (aiChatQuery r) ''openai'' False))
         in [SetAiChatResponse ''Thinking...''] @ started @ [SetAiChatQuery ''''] @ rest))"

definition handleAISearchSubmit ::
  "dashboard \<Rightarrow> (nat \<Rightarrow> string option http_result) \<Rightarrow> (nat \<Rightarrow> real) \<Rightarrow> event list" where
  "handleAISearchSubmit r endpoint random =
     (if trim (aiSearchQuery r) = [] then []
      else
        (let (started, rest) = until_first_await
               (fst (callPollinationsChatAPI r endpoint random (aiSearchQuery r)
                       (aiSearchModel (settings r)) True))
         in [SetAiSearchResponse ''Searching the web...''] @ started @
            [SetAiSearchQuery ''''] @ rest))"

subsection \<open>The wallpaper generator: \<open>handleGenerateWallpaper\<close>\<close>

text \<open>The \<open>catch\<close> block.\<close>

definition wallpaper_catch :: "string \<Rightarrow> event list" where
  "wallpaper_catch msg =
     [SetSettingsMessage (''Image generation error. Check prompt and key. ('' @ msg @ '')''),
      SetSettingsWallpaper (url (WALLPAPERS ! 0))]"

text \<open>The value read from a successful response is \<open>data.url\<close>, \<open>None\<close> when the
  property is missing; an empty string is falsy like a missing one.\<close>

definition handleGenerateWallpaper ::
  "dashboard \<Rightarrow> string option http_result \<Rightarrow> event list" where
  "handleGenerateWallpaper r endpoint =
     (if trim (wallpaperPrompt r) = [] then
        [SetSettingsMessage ''Please enter a description for the wallpaper.'']
      else if pollinationsApiKey (settings r) = [] then
        [SetSettingsMessage ''Pollinations API Key is required to generate images.'']
      else
        (let model = ''nanobanana-pro'';
             suffix = '', 16:9 background, wallpaper, 4k'';
             finalPrompt = wallpaperPrompt r @ suffix
         in [SetIsGeneratingWallpaper True,
             SetSettingsMessage ''Generating image... this may take up to a minute.'',
             Fetch (ImagePost (pollinationsApiKey (settings r)) finalPrompt model 1920 1080)] @
            (case endpoint of
               Rejects msg \<Rightarrow> wallpaper_catch msg
             | Response status rd \<Rightarrow>
                 if \<not> ok status then wallpaper_catch (''Status: '' @ show_nat status)
                 else
                   (case rd of
                      Throws msg \<Rightarrow> wallpaper_catch msg
                    | Reads imageUrl \<Rightarrow>
                        (case imageUrl of
                           None \<Rightarrow> wallpaper_catch ''No image URL returned.''
                         | Some u \<Rightarrow>
                             if u = [] then wallpaper_catch ''No image URL returned.''
                             else [SetSettingsWallpaper u,
                                   SetSettingsMessage
                                     ''Wallpaper successfully generated and applied!'',
                                   SetWallpaperPrompt '''']))) @
            [SetIsGeneratingWallpaper False]))"

subsection \<open>The weather refresher: \<open>fetchWeather\<close>\<close>

text \<open>The fields that \<open>fetchWeather\<close> reads from the provider's answer:
  \<open>data.main.temp\<close>, \<open>data.weather[0].description\<close>, \<open>data.name\<close>,
  \<open>data.weather[0].icon\<close>, \<open>data.main.humidity\<close>, \<open>data.wind.speed\<close>. Numbers are
  exact here, not floating point.\<close>

record weather_data =
  main_temp :: real
  weather0_description :: string
  data_name :: string
  weather0_icon :: string
  main_humidity :: real
  wind_speed :: real

text \<open>\<open>Math.round\<close>: the nearest integer, a half rounding up.\<close>

definition Math_round :: "real \<Rightarrow> int" where
  "Math_round x = \<lfloor>x + 1 / 2\<rfloor>"

definition mock_snapshot :: "dashboard \<Rightarrow> weather_snapshot" where
  "mock_snapshot r =
     \<lparr>temp = TempNumber (if unit (settings r) = ''F'' then 72 else 22),
      condition = ''Clear Sky'',
      location_label = ''Rochester, MN (Mock)'',
      icon = ''01d'',
      humidity = 45,
      wind = 12\<rparr>"

definition error_snapshot :: weather_snapshot where
  "error_snapshot =
     \<lparr>temp = TempString ''--'',
      condition = ''API Error'',
      location_label = ''Check Key'',
      icon = ''unknown'',
      humidity = 0,
      wind = 0\<rparr>"

text \<open>The part of the \<open>try\<close> block from the request on: its effects, and whether it
  threw.\<close>

definition weather_request ::
  "dashboard \<Rightarrow> weather_data http_result \<Rightarrow> weather_query \<Rightarrow> event list \<times> bool" where
  "weather_request r endpoint query =
     (let units = (if unit (settings r) = ''F'' then ''imperial'' else ''metric'');
          req = Fetch (WeatherGet query (apiKey (settings r)) units)
      in case endpoint of
           Rejects msg \<Rightarrow> ([req], True)
         | Response status rd \<Rightarrow>
             if \<not> ok status then ([req], True)
             else
               (case rd of
                  Throws msg \<Rightarrow> ([req], True)
                | Reads data \<Rightarrow>
                    ([req,
                      SetWeather
                        \<lparr>temp = TempNumber (Math_round (main_temp data)),
                         condition = weather0_description data,
                         location_label = data_name data,
                         icon = weather0_icon data,
                         humidity = main_humidity data,
                         wind = wind_speed data\<rparr>], False)))"

text \<open>The \<open>try\<close> block: with \<open>isAutoLocation\<close> the position is asked for first, and a
  rejection throws before any request.\<close>

definition weather_try ::
  "dashboard \<Rightarrow> geolocation \<Rightarrow> weather_data http_result \<Rightarrow> event list \<times> bool" where
  "weather_try r geo endpoint =
     (if isAutoLocation (settings r) then
        (case geo of
           Denied \<Rightarrow> ([GetCurrentPosition], True)
         | Coords latitude longitude \<Rightarrow>
             (let (evs, threw) = weather_request r endpoint (ByCoords latitude longitude)
              in (GetCurrentPosition # evs, threw)))
      else weather_request r endpoint (ByCity (location (settings r))))"

definition fetchWeather ::
  "dashboard \<Rightarrow> geolocation \<Rightarrow> weather_data http_result \<Rightarrow> event list" where
  "fetchWeather r geo endpoint =
     SetLoadingWeather True #
     (if apiKey (settings r) = [] then
        [SetTimeout 800 [SetWeather (mock_snapshot r), SetLoadingWeather False]]
      else
        (let (evs, threw) = weather_try r geo endpoint
         in evs @ (if threw then [SetWeather error_snapshot] else []) @
            [SetLoadingWeather False]))"

text \<open>The timers started, with their delays in milliseconds.\<close>

fun timers :: "event list \<Rightarrow> nat list" where
  "timers [] = []"
| "timers (SetTimeout ms callback # es) = ms # timers es"
| "timers (e # es) = timers es"

text \<open>The snapshots written to the \<open>weather\<close> state, those of timer callbacks
  included.\<close>

fun snapshots :: "event list \<Rightarrow> weather_snapshot list" where
  "snapshots [] = []"
| "snapshots (SetWeather w # es) = w # snapshots es"
| "snapshots (SetTimeout ms callback # es) = snapshots callback @ snapshots es"
| "snapshots (e # es) = snapshots es"

subsection \<open>Reading the settings at start-up\<close>

text \<open>The value of \<open>JSON.parse\<close>. A string is the list of its code units (an escape
  \<open>\uXXXX\<close> can denote any of them); a number is kept as its source text, the dashboard
  computes with none; an object is the list of its members in insertion order, a
  repeated key keeping its place and taking the later value (the order that
  JavaScript gives to keys that look like array indices is not modelled).\<close>

datatype json =
    JNull
  | JBool bool
  | JNumber string
  | JString "nat list"
  | JArray "json list"
  | JObject "(nat list \<times> json) list"

datatype exception = SyntaxError

datatype token =
    TLBrace | TRBrace | TLBracket | TRBracket | TColon | TComma
  | TString "nat list" | TNumber string | TTrue | TFalse | TNull

definition is_digit :: "char \<Rightarrow> bool" where
  "is_digit c \<longleftrightarrow> 48 \<le> (of_char c :: nat) \<and> (of_char c :: nat) \<le> 57"

text \<open>The JSON grammar of a number:
  \<open>-? (0 | [1-9][0-9]*) (. [0-9]+)? ([eE] [+-]? [0-9]+)?\<close>.\<close>

definition digits_then :: "(string \<Rightarrow> bool) \<Rightarrow> string \<Rightarrow> bool" where
  "digits_then k s \<longleftrightarrow> takeWhile is_digit s \<noteq> [] \<and> k (dropWhile is_digit s)"

definition exponent_ok :: "string \<Rightarrow> bool" where
  "exponent_ok s =
     (case s of
        [] \<Rightarrow> True
      | c # cs \<Rightarrow>
          (c = CHR ''e'' \<or> c = CHR ''E'') \<and>
          (case cs of
             [] \<Rightarrow> False
           | d # ds \<Rightarrow>
               if d = CHR ''+'' \<or> d = CHR ''-'' then digits_then (\<lambda>rest. rest = []) ds
               else digits_then (\<lambda>rest. rest = []) cs))"

definition fraction_ok :: "string \<Rightarrow> bool" where
  "fraction_ok s =
     (case s of
        [] \<Rightarrow> True
      | c # cs \<Rightarrow> if c = CHR ''.'' then digits_then exponent_ok cs else exponent_ok s)"

definition integer_ok :: "string \<Rightarrow> bool" where
  "integer_ok s =
     (case s of
        [] \<Rightarrow> False
      | c # cs \<Rightarrow>
          if c = CHR ''0'' then fraction_ok cs
          else is_digit c \<and> fraction_ok (dropWhile is_digit cs))"

definition is_number :: "string \<Rightarrow> bool" where
  "is_number s =
     (case s of [] \<Rightarrow> False | c # cs \<Rightarrow> if c = CHR ''-'' then integer_ok cs else integer_ok s)"

text \<open>The lexer reads one character at a time. Outside a string, a maximal run of
  letters, digits, signs and points is one word, which must be a literal name or a
  number: in JSON text a number or a literal name is always followed by white space,
  a comma or a closing bracket.\<close>

datatype lex_mode =
    Idle
  | InWord string
  | InString "nat list"
  | InEscape "nat list"
  | InUnicode "nat list" "nat list"

definition is_json_space :: "char \<Rightarrow> bool" where
  "is_json_space c \<longleftrightarrow> (of_char c :: nat) \<in> {9, 10, 13, 32}"

definition is_word_char :: "char \<Rightarrow> bool" where
  "is_word_char c =
     (let n = (of_char c :: nat)
      in (48 \<le> n \<and> n \<le> 57) \<or> (65 \<le> n \<and> n \<le> 90) \<or> (97 \<le> n \<and> n \<le> 122) \<or>
         n = 43 \<or> n = 45 \<or> n = 46)"

definition punctuation :: "char \<Rightarrow> token option" where
  "punctuation c =
     (if c = CHR ''{'' then Some TLBrace
      else if c = CHR ''}'' then Some TRBrace
      else if c = CHR ''['' then Some TLBracket
      else if c = CHR '']'' then Some TRBracket
      else if c = CHR '':'' then Some TColon
      else if c = CHR '','' then Some TComma
      else None)"

definition word_token :: "string \<Rightarrow> token option" where
  "word_token w =
     (if w = ''true'' then Some TTrue
      else if w = ''false'' then Some TFalse
      else if w = ''null'' then Some TNull
      else if is_number w then Some (TNumber w)
      else None)"

definition hex_value :: "char \<Rightarrow> nat option" where
  "hex_value c =
     (let n = (of_char c :: nat)
      in if 48 \<le> n \<and> n \<le> 57 then Some (n - 48)
         else if 65 \<le> n \<and> n \<le> 70 then Some (n - 55)
         else if 97 \<le> n \<and> n \<le> 102 then Some (n - 87)
         else None)"

definition escape_value :: "char \<Rightarrow> nat option" where
  "escape_value c =
     (if c = CHR ''b'' then Some 8
      else if c = CHR ''t'' then Some 9
      else if c = CHR ''n'' then Some 10
      else if c = CHR ''f'' then Some 12
      else if c = CHR ''r'' then Some 13
      else if (of_char c :: nat) \<in> {34, 47, 92} then Some (of_char c)
      else None)"

definition idle_char :: "char \<Rightarrow> (token list \<times> lex_mode) option" where
  "idle_char c =
     (if is_json_space c then Some ([], Idle)
      else if (of_char c :: nat) = 34 then Some ([], InString [])
      else if is_word_char c then Some ([], InWord [c])
      else (case punctuation c of None \<Rightarrow> None | Some t \<Rightarrow> Some ([t], Idle)))"

definition lex_char :: "lex_mode \<Rightarrow> char \<Rightarrow> (token list \<times> lex_mode) option" where
  "lex_char m c =
     (case m of
        Idle \<Rightarrow> idle_char c
      | InWord w \<Rightarrow>
          if is_word_char c then Some ([], InWord (w @ [c]))
          else
            (case word_token w of
               None \<Rightarrow> None
             | Some t \<Rightarrow>
                 (case idle_char c of None \<Rightarrow> None | Some (ts, m') \<Rightarrow> Some (t # ts, m')))
      | InString acc \<Rightarrow>
          if (of_char c :: nat) = 34 then Some ([TString acc], Idle)
          else if (of_char c :: nat) = 92 then Some ([], InEscape acc)
          else if (of_char c :: nat) < 32 then None
          else Some ([], InString (acc @ [of_char c]))
      | InEscape acc \<Rightarrow>
          if c = CHR ''u'' then Some ([], InUnicode acc [])
          else (case escape_value c of None \<Rightarrow> None | Some n \<Rightarrow> Some ([], InString (acc @ [n])))
      | InUnicode acc hs \<Rightarrow>
          (case hex_value c of
             None \<Rightarrow> None
           | Some h \<Rightarrow>
               if length hs = 3
               then Some ([], InString (acc @ [foldl (\<lambda>v d. 16 * v + d) 0 (hs @ [h])]))
               else Some ([], InUnicode acc (hs @ [h]))))"

fun lex_from :: "lex_mode \<Rightarrow> string \<Rightarrow> token list option" where
  "lex_from m [] =
     (case m of
        Idle \<Rightarrow> Some []
      | InWord w \<Rightarrow> (case word_token w of None \<Rightarrow> None | Some t \<Rightarrow> Some [t])
      | _ \<Rightarrow> None)"
| "lex_from m (c # cs) =
     (case lex_char m c of
        None \<Rightarrow> None
      | Some (ts, m') \<Rightarrow> (case lex_from m' cs of None \<Rightarrow> None | Some us \<Rightarrow> Some (ts @ us)))"

text \<open>The parser keeps the open arrays and objects on a stack. An open object holds
  its members so far and the key waiting for its value.\<close>

datatype frame =
    ArrayFrame "json list"
  | ObjectFrame "(nat list \<times> json) list" "nat list option"

datatype expecting =
    AValue | AValueOrClose | AKeyOrClose | AKey | AColon | ACommaOrClose | Finished json

fun put_member :: "nat list \<Rightarrow> json \<Rightarrow> (nat list \<times> json) list \<Rightarrow> (nat list \<times> json) list" where
  "put_member k v [] = [(k, v)]"
| "put_member k v ((k', v') # kvs) =
     (if k' = k then (k, v) # kvs else (k', v') # put_member k v kvs)"

fun put_value :: "json \<Rightarrow> frame list \<Rightarrow> (frame list \<times> expecting) option" where
  "put_value v [] = Some ([], Finished v)"
| "put_value v (ArrayFrame xs # stack) = Some (ArrayFrame (xs @ [v]) # stack, ACommaOrClose)"
| "put_value v (ObjectFrame kvs (Some k) # stack) =
     Some (ObjectFrame (put_member k v kvs) None # stack, ACommaOrClose)"
| "put_value v (ObjectFrame kvs None # stack) = None"

fun start_value :: "token \<Rightarrow> frame list \<Rightarrow> (frame list \<times> expecting) option" where
  "start_value TLBrace stack = Some (ObjectFrame [] None # stack, AKeyOrClose)"
| "start_value TLBracket stack = Some (ArrayFrame [] # stack, AValueOrClose)"
| "start_value (TString s) stack = put_value (JString s) stack"
| "start_value (TNumber w) stack = put_value (JNumber w) stack"
| "start_value TTrue stack = put_value (JBool True) stack"
| "start_value TFalse stack = put_value (JBool False) stack"
| "start_value TNull stack = put_value JNull stack"
| "start_value t stack = None"

fun close_array :: "frame list \<Rightarrow> (frame list \<times> expecting) option" where
  "close_array (ArrayFrame xs # stack) = put_value (JArray xs) stack"
| "close_array stack = None"

fun close_object :: "frame list \<Rightarrow> (frame list \<times> expecting) option" where
  "close_object (ObjectFrame kvs None # stack) = put_value (JObject kvs) stack"
| "close_object stack = None"

fun take_key :: "token \<Rightarrow> frame list \<Rightarrow> (frame list \<times> expecting) option" where
  "take_key (TString k) (ObjectFrame kvs None # stack) =
     Some (ObjectFrame kvs (Some k) # stack, AColon)"
| "take_key t stack = None"

fun after_comma :: "frame list \<Rightarrow> (frame list \<times> expecting) option" where
  "after_comma (ArrayFrame xs # stack) = Some (ArrayFrame xs # stack, AValue)"
| "after_comma (ObjectFrame kvs None # stack) = Some (ObjectFrame kvs None # stack, AKey)"
| "after_comma stack = None"

fun parse_token :: "expecting \<Rightarrow> token \<Rightarrow> frame list \<Rightarrow> (frame list \<times> expecting) option" where
  "parse_token (Finished v) t stack = None"
| "parse_token AColon t stack = (if t = TColon then Some (stack, AValue) else None)"
| "parse_token AKey t stack = take_key t stack"
| "parse_token AKeyOrClose t stack =
     (if t = TRBrace then close_object stack else take_key t stack)"
| "parse_token ACommaOrClose t stack =
     (if t = TComma then after_comma stack
      else if t = TRBracket then close_array stack
      else if t = TRBrace then close_object stack
      else None)"
| "parse_token AValue t stack = start_value t stack"
| "parse_token AValueOrClose t stack =
     (if t = TRBracket then close_array stack else start_value t stack)"

fun parse_tokens :: "token list \<Rightarrow> frame list \<times> expecting \<Rightarrow> exception + json" where
  "parse_tokens [] (stack, e) = (case e of Finished v \<Rightarrow> Inr v | _ \<Rightarrow> Inl SyntaxError)"
| "parse_tokens (t # ts) (stack, e) =
     (case parse_token e t stack of
        None \<Rightarrow> Inl SyntaxError
      | Some state \<Rightarrow> parse_tokens ts state)"

definition JSON_parse :: "string \<Rightarrow> exception + json" where
  "JSON_parse text =
     (case lex_from Idle text of
        None \<Rightarrow> Inl SyntaxError
      | Some ts \<Rightarrow> parse_tokens ts ([], AValue))"

text \<open>\<open>DEFAULT_SETTINGS\<close>, and any record of its shape, as a value of this kind.\<close>

definition js_string :: "string \<Rightarrow> json" where
  "js_string s = JString (map of_char s)"

definition json_of_settings :: "settings_record \<Rightarrow> json" where
  "json_of_settings s =
     JObject
       [(map of_char ''userName'', js_string (userName s)),
        (map of_char ''userEmail'', js_string (userEmail s)),
        (map of_char ''apiKey'', js_string (apiKey s)),
        (map of_char ''pollinationsApiKey'', js_string (pollinationsApiKey s)),
        (map of_char ''profilePictureUrl'', js_string (profilePictureUrl s)),
        (map of_char ''location'', js_string (location s)),
        (map of_char ''isAutoLocation'', JBool (isAutoLocation s)),
        (map of_char ''is24Hour'', JBool (is24Hour s)),
        (map of_char ''unit'', js_string (unit s)),
        (map of_char ''wallpaper'', js_string (wallpaper s)),
        (map of_char ''aiSearchModel'', js_string (aiSearchModel s))]"

text \<open>The initialiser of the \<open>settings\<close> state:
  \<open>saved ? JSON.parse(saved) : DEFAULT_SETTINGS\<close> with
  \<open>saved = localStorage.getItem('dashboardSettings')\<close>. A missing key gives \<open>null\<close>,
  which is falsy, and so is the empty string. An exception of \<open>JSON.parse\<close> is not
  caught.\<close>

definition load :: "(string \<rightharpoonup> string) \<Rightarrow> exception + json" where
  "load store =
     (case store ''dashboardSettings'' of
        None \<Rightarrow> Inr (json_of_settings DEFAULT_SETTINGS)
      | Some saved \<Rightarrow>
          if saved = [] then Inr (json_of_settings DEFAULT_SETTINGS) else JSON_parse saved)"

text \<open>The initialiser of the \<open>notes\<close> state:
  \<open>localStorage.getItem('dashboardNotes') || ''\<close>.\<close>

definition load_notes :: "(string \<rightharpoonup> string) \<Rightarrow> string" where
  "load_notes store = (case store ''dashboardNotes'' of None \<Rightarrow> '''' | Some saved \<Rightarrow> saved)"

subsection \<open>The first render\<close>

text \<open>The state with which \<open>App\<close> renders first when \<open>localStorage\<close> is empty: the
  initial values of the \<open>useState\<close> cells, before any effect has run.\<close>

definition first_render :: dashboard where
  "first_render =
     \<lparr>settings = DEFAULT_SETTINGS,
      notes_text = '''',
      weather = None,
      loadingWeather = False,
      aiChatQuery = '''',
      aiChatResponse = '''',
      isAIChatting = False,
      aiSearchQuery = '''',
      aiSearchResponse = '''',
      isAISearching = False,
      wallpaperPrompt = '''',
      isGeneratingWallpaper = False,
      settingsMessage = None,
      localStorage = Map.empty\<rparr>"

subsection \<open>Outcomes named by the specification\<close>

text \<open>A request of the weather refresher fails when \<open>fetch\<close> rejects, when the status
  is not a success, or when reading the answer throws.\<close>

definition request_fails :: "'a http_result \<Rightarrow> bool" where
  "request_fails e =
     (case e of
        Rejects msg \<Rightarrow> True
      | Response status rd \<Rightarrow>
          \<not> ok status \<or> (case rd of Throws msg \<Rightarrow> True | Reads v \<Rightarrow> False))"

text \<open>A request of the wallpaper generator fails, or succeeds without a usable image
  URL.\<close>

definition no_image :: "string option http_result \<Rightarrow> bool" where
  "no_image e =
     (case e of
        Rejects msg \<Rightarrow> True
      | Response status rd \<Rightarrow>
          \<not> ok status \<or>
          (case rd of Throws msg \<Rightarrow> True | Reads u \<Rightarrow> u = None \<or> u = Some []))"

section \<open>Properties\<close>

subsection \<open>Reading off a list of effects\<close>

lemma fetches_append: "fetches (xs @ ys) = fetches xs @ fetches ys"
  by (induction xs rule: fetches.induct) simp_all

lemma sleeps_append: "sleeps (xs @ ys) = sleeps xs @ sleeps ys"
  by (induction xs rule: sleeps.induct) simp_all

lemma responses_append: "responses s (xs @ ys) = responses s xs @ responses s ys"
  by (induction s xs rule: responses.induct) simp_all

lemma busy_writes_append: "busy_writes s (xs @ ys) = busy_writes s xs @ busy_writes s ys"
  by (induction s xs rule: busy_writes.induct) simp_all

lemma snapshots_append: "snapshots (xs @ ys) = snapshots xs @ snapshots ys"
  by (induction xs rule: snapshots.induct) simp_all

lemma run_append: "run (xs @ ys) st = run ys (run xs st)"
  by (simp add: run_def)

lemma run_Cons: "run (e # es) st = run es (apply_event e st)"
  by (simp add: run_def)

lemma run_Nil: "run [] st = st"
  by (simp add: run_def)

lemma setResponse_seen [simp]:
  "fetches (setResponse s t # es) = fetches es"
  "sleeps (setResponse s t # es) = sleeps es"
  "responses s (setResponse s t # es) = t # responses s es"
  "busy_writes s' (setResponse s t # es) = busy_writes s' es"
  by (simp_all add: setResponse_def)

lemma setBusy_seen [simp]:
  "fetches (setBusy s b # es) = fetches es"
  "sleeps (setBusy s b # es) = sleeps es"
  "responses s' (setBusy s b # es) = responses s' es"
  "busy_writes s (setBusy s b # es) = b # busy_writes s es"
  by (simp_all add: setBusy_def)

lemma finally_block_quiet:
  "fetches (finally_block r s a) = []"
  "sleeps (finally_block r s a) = []"
  "responses s' (finally_block r s a) = []"
  by (simp_all add: finally_block_def)

lemma show_nat_429: "show_nat 429 = ''429''"
  by code_simp

lemma show_nat_500: "show_nat 500 = ''500''"
  by code_simp

lemma api_call_failed_429: "api_call_failed 429 = ''API call failed with status: 429''"
  by (simp add: api_call_failed_def show_nat_429)

lemma api_call_failed_500: "api_call_failed 500 = ''API call failed with status: 500''"
  by (simp add: api_call_failed_def show_nat_500)

text \<open>What rounding to a nearest double does to the two delays. Three facts about
  the rounding are used: it is monotone; the whole numbers up to \<open>2^53\<close> are doubles and
  round to themselves; the result \<open>fl x\<close> is at least as near to \<open>x\<close> as the double
  just below 1000, which is \<open>1000 - 2^-43\<close>. A value of \<open>Math.random()\<close> is a double
  below 1, so it is at most \<open>1 - 2^-53\<close>.\<close>

lemma rounded_delay:
  assumes mono: "\<forall>x y. x \<le> y \<longrightarrow> fl x \<le> fl y"
    and exact: "\<forall>n::nat. n \<le> 2 ^ 53 \<longrightarrow> fl (real n) = real n"
    and nearest: "\<forall>x. \<bar>fl x - x\<bar> \<le> \<bar>(1000 - 1 / 2 ^ 43) - x\<bar>"
    and u: "0 \<le> u" "u \<le> 1 - 1 / 2 ^ 53"
  shows "0 \<le> fl (u * 1000)" and "fl (u * 1000) < 1000"
    and "1000 \<le> fl (1000 + fl (u * 1000))" and "fl (1000 + fl (u * 1000)) \<le> 2000"
    and "2000 \<le> fl (2000 + fl (u * 1000))" and "fl (2000 + fl (u * 1000)) \<le> 3000"
    and "fl 1000 = 1000" and "fl 2000 = 2000"
proof -
  have e0: "fl 0 = 0"
    using exact [rule_format, of 0] by simp
  have e1: "fl 1000 = 1000"
    using exact [rule_format, of 1000] by simp
  have e2: "fl 2000 = 2000"
    using exact [rule_format, of 2000] by simp
  have e3: "fl 3000 = 3000"
    using exact [rule_format, of 3000] by simp
  show "fl 1000 = 1000" "fl 2000 = 2000"
    by (rule e1, rule e2)
  have x0: "0 \<le> u * 1000"
    using u(1) by simp
  have x1: "u * 1000 \<le> 1000 - 1000 / 2 ^ 53"
    using u(2) by simp
  from mono x0 e0 show lo: "0 \<le> fl (u * 1000)"
    by metis
  have le: "fl (u * 1000) \<le> 1000"
  proof -
    from x1 have "u * 1000 \<le> 1000"
      by simp
    with mono e1 show ?thesis
      by metis
  qed
  have ne: "fl (u * 1000) \<noteq> 1000"
  proof
    assume "fl (u * 1000) = 1000"
    with nearest [rule_format, of "u * 1000"]
    have "\<bar>1000 - u * 1000\<bar> \<le> \<bar>(1000 - 1 / 2 ^ 43) - u * 1000\<bar>"
      by simp
    with x1 show False
      by simp
  qed
  from le ne show hi: "fl (u * 1000) < 1000"
    by simp
  have "1000 \<le> 1000 + fl (u * 1000)"
    using lo by simp
  with mono e1 show "1000 \<le> fl (1000 + fl (u * 1000))"
    by metis
  have "1000 + fl (u * 1000) \<le> 2000"
    using hi by simp
  with mono e2 show "fl (1000 + fl (u * 1000)) \<le> 2000"
    by metis
  have "2000 \<le> 2000 + fl (u * 1000)"
    using lo by simp
  with mono e2 show "2000 \<le> fl (2000 + fl (u * 1000))"
    by metis
  have "2000 + fl (u * 1000) \<le> 3000"
    using hi by simp
  with mono e3 show "fl (2000 + fl (u * 1000)) \<le> 3000"
    by metis
qed

subsection \<open>The chat call\<close>

text \<open>One iteration writes a response text exactly when it returns one; an iteration
  that goes on to the next has written none and is not the last.\<close>

lemma try_attempt_cases:
  "try_attempt r endpoint random prompt model isSearch attempt = (evs, c) \<Longrightarrow>
   (\<exists>t. c = Returned t \<and> responses isSearch evs = [t]) \<or>
   (c = Continue \<and> responses isSearch evs = [] \<and> attempt < maxRetries - 1) \<or>
   (\<exists>m. c = Thrown m \<and> responses isSearch evs = [])"
  by (auto simp: try_attempt_def Let_def split: http_result.splits reading.splits if_splits)

text \<open>Entered below \<open>maxRetries\<close>, the loop returns a text, and that text is the one
  response it has written.\<close>

lemma retry_loop_one_text:
  "attempt < maxRetries \<Longrightarrow>
   retry_loop r endpoint random prompt model isSearch attempt = (evs, ret) \<Longrightarrow>
   \<exists>t. ret = Some t \<and> responses isSearch evs = [t]"
proof (induction r endpoint random prompt model isSearch attempt arbitrary: evs ret
    rule: retry_loop.induct)
  case (1 r endpoint random prompt model isSearch attempt)
  obtain tevs c where t: "try_attempt r endpoint random prompt model isSearch attempt = (tevs, c)"
    by (cases "try_attempt r endpoint random prompt model isSearch attempt")
  from try_attempt_cases [OF t] show ?case
  proof (elim disjE exE conjE)
    fix x assume "c = Returned x" "responses isSearch tevs = [x]"
    with 1(2,3) t show ?thesis
      by (auto simp add: retry_loop.simps [of _ _ _ _ _ _ attempt] responses_append
          finally_block_quiet)
  next
    fix m assume "c = Thrown m" "responses isSearch tevs = []"
    with 1(2,3) t show ?thesis
      by (auto simp add: retry_loop.simps [of _ _ _ _ _ _ attempt] responses_append
          finally_block_quiet Let_def)
  next
    assume c: "c = Continue" "responses isSearch tevs = []" "attempt < maxRetries - 1"
    obtain evs' ret' where
      r': "retry_loop r endpoint random prompt model isSearch (attempt + 1) = (evs', ret')"
      by (cases "retry_loop r endpoint random prompt model isSearch (attempt + 1)")
    from c(3) have lt: "attempt + 1 < maxRetries"
      by simp
    from 1(1) [OF 1(2) t [symmetric] _ lt r'] c(1)
    obtain x where "ret' = Some x" "responses isSearch evs' = [x]"
      by auto
    with 1(2,3) t c r' show ?thesis
      by (auto simp add: retry_loop.simps [of _ _ _ _ _ _ attempt] responses_append
          finally_block_quiet)
  qed
qed

text \<open>With a credential, every call writes exactly one response text, the text it
  returns: the answer of the service or an \<open>AI Error:\<close> text.\<close>

lemma callPollinationsChatAPI_one_text:
  assumes "pollinationsApiKey (settings r) \<noteq> []"
  shows "\<exists>t. snd (callPollinationsChatAPI r endpoint random prompt model isSearch) = Some t \<and>
    responses isSearch (fst (callPollinationsChatAPI r endpoint random prompt model isSearch)) = [t]"
proof -
  obtain evs ret where loop: "retry_loop r endpoint random prompt model isSearch 0 = (evs, ret)"
    by (cases "retry_loop r endpoint random prompt model isSearch 0")
  have "0 < maxRetries"
    by (simp add: maxRetries_def)
  from retry_loop_one_text [OF this loop] assms loop show ?thesis
    by (auto simp: callPollinationsChatAPI_def)
qed

text \<open>
  \<^bold>\<open>C1\<close> (the busy flag goes from true to false exactly once per call, whatever the
  outcome). The source does not do this. The \<open>finally\<close> block clears the flag only at
  the last attempt or when both flags were false in the render that made the call.
  Take a chat submitted while a search is in flight (\<open>isAISearching\<close> true in that
  render), answered with status 200 at the first attempt: the call sets
  \<open>isAIChatting\<close> to true, writes the answer and never sets the flag back, so the
  flag is true at the end and has not gone from true to false at all.
\<close>

theorem busy_flag_left_set:
  "(let r = first_render\<lparr>settings := DEFAULT_SETTINGS\<lparr>pollinationsApiKey := ''k''\<rparr>,
                            isAISearching := True\<rparr>;
        (evs, ret) = callPollinationsChatAPI r (\<lambda>attempt. Response 200 (Reads (Some ''hi'')))
                       (\<lambda>attempt. 0) ''hello'' ''openai'' False
    in evs = [SetIsAIChatting True, Fetch (ChatPost ''k'' ''openai'' ''hello''),
              SetAiChatResponse ''hi''] \<and>
       ret = Some ''hi'' \<and>
       busy_writes False evs = [True] \<and>
       \<not> isAIChatting r \<and>
       isAIChatting (run evs r) \<and>
       falls (map (busy False) (states evs r)) = 0)"
  by (simp add: callPollinationsChatAPI_def retry_loop.simps [of _ _ _ _ _ _ 0] try_attempt_def
      finally_block_def maxRetries_def ok_def responseText_def setBusy_def setResponse_def
      first_render_def DEFAULT_SETTINGS_def run_def busy_def)

text \<open>The third iteration is the last: it sends one request and then only writes
  state.\<close>

lemma last_attempt:
  "\<exists>evs ret. retry_loop r endpoint random prompt model isSearch 2 =
       (Fetch (ChatPost (pollinationsApiKey (settings r)) model prompt) # evs, ret) \<and>
     fetches evs = [] \<and> sleeps evs = []"
  by (cases "endpoint 2")
     (auto simp: retry_loop.simps [of _ _ _ _ _ _ 2] try_attempt_def maxRetries_def Let_def
        fetches_append sleeps_append finally_block_quiet
        split: reading.splits)

lemma last_attempt_ok:
  "endpoint 2 = Response 200 (Reads content) \<Longrightarrow>
   retry_loop r endpoint random prompt model isSearch 2 =
     ([Fetch (ChatPost (pollinationsApiKey (settings r)) model prompt),
       setResponse isSearch (responseText content)] @ finally_block r isSearch 2,
      Some (responseText content))"
  by (simp add: retry_loop.simps [of _ _ _ _ _ _ 2] try_attempt_def maxRetries_def ok_def)

lemma last_attempt_fails:
  "endpoint 2 = Response status b2 \<Longrightarrow> \<not> ok status \<Longrightarrow> status \<noteq> 401 \<Longrightarrow>
   retry_loop r endpoint random prompt model isSearch 2 =
     ([Fetch (ChatPost (pollinationsApiKey (settings r)) model prompt),
       setResponse isSearch (''AI Error: '' @ api_call_failed status)] @
      finally_block r isSearch 2,
      Some (''AI Error: '' @ api_call_failed status))"
  by (simp add: retry_loop.simps [of _ _ _ _ _ _ 2] try_attempt_def maxRetries_def Let_def)

lemma two_retries:
  assumes "endpoint 0 = Response 429 b0" and "endpoint 1 = Response 429 b1"
    and "retry_loop r endpoint random prompt model isSearch 2 = (evs2, ret2)"
  shows "retry_loop r endpoint random prompt model isSearch 0 =
     ([Fetch (ChatPost (pollinationsApiKey (settings r)) model prompt),
       ConsoleWarn (Add (Mul (Lit (2 ^ 0)) (Lit 1000)) (Mul (Lit (random 0)) (Lit 1000))),
       Sleep (Add (Mul (Lit (2 ^ 0)) (Lit 1000)) (Mul (Lit (random 0)) (Lit 1000)))] @
      finally_block r isSearch 0 @
      [Fetch (ChatPost (pollinationsApiKey (settings r)) model prompt),
       ConsoleWarn (Add (Mul (Lit (2 ^ 1)) (Lit 1000)) (Mul (Lit (random 1)) (Lit 1000))),
       Sleep (Add (Mul (Lit (2 ^ 1)) (Lit 1000)) (Mul (Lit (random 1)) (Lit 1000)))] @
      finally_block r isSearch 1 @ evs2, ret2)"
proof -
  have two: "Suc (Suc 0) = 2"
    by simp
  show ?thesis
    using assms
    by (simp add: retry_loop.simps [of _ _ _ _ _ _ 0] retry_loop.simps [of _ _ _ _ _ _ "Suc 0"]
        try_attempt_def maxRetries_def ok_def two Let_def)
qed

text \<open>
  \<^bold>\<open>C4\<close>, amended in its last part. A call with a credential whose first two answers
  are HTTP 429 makes exactly three requests and pauses twice, before each retry. The
  two pauses are the source's \<open>Math.pow(2, attempt) * 1000 + Math.random() * 1000\<close> for
  the attempts 0 and 1: in double arithmetic, with \<open>fl\<close> the rounding to a nearest
  double, they are \<open>fl (1000 + jitter)\<close> and \<open>fl (2000 + jitter)\<close> with the jitter
  \<open>fl (Math.random() * 1000)\<close> in \<open>[0, 1000)\<close>; so the first is at least 1000 ms, the
  second at least 2000 ms and the two add up to at least 3000 ms. If the third answer
  is a 200, the call writes and returns its payload: the content read when there is
  one, the placeholder \<open>No response received from AI.\<close> when the content is missing or
  empty. If the third answer is any status that is not a success and not 401, a 429
  among them, the call fails with the text of the general failure that carries the
  status; for the exhausted 429 this is
  \<open>AI Error: API call failed with status: 429\<close>.
\<close>

theorem rate_limit_retry:
  assumes key: "pollinationsApiKey (settings r) \<noteq> []"
    and random: "\<forall>n. 0 \<le> random n \<and> random n \<le> 1 - 1 / 2 ^ 53"
    and mono: "\<forall>x y. x \<le> y \<longrightarrow> fl x \<le> fl y"
    and exact: "\<forall>n::nat. n \<le> 2 ^ 53 \<longrightarrow> fl (real n) = real n"
    and nearest: "\<forall>x. \<bar>fl x - x\<bar> \<le> \<bar>(1000 - 1 / 2 ^ 43) - x\<bar>"
    and first: "endpoint 0 = Response 429 b0"
    and second: "endpoint 1 = Response 429 b1"
  shows
    "(let (evs, ret) = callPollinationsChatAPI r endpoint random prompt model isSearch;
          req = ChatPost (pollinationsApiKey (settings r)) model prompt;
          delay0 = Add (Mul (Lit (2 ^ 0)) (Lit 1000)) (Mul (Lit (random 0)) (Lit 1000));
          delay1 = Add (Mul (Lit (2 ^ 1)) (Lit 1000)) (Mul (Lit (random 1)) (Lit 1000));
          jitter0 = fl (random 0 * 1000);
          jitter1 = fl (random 1 * 1000)
      in fetches evs = [req, req, req] \<and>
         sleeps evs = [delay0, delay1] \<and>
         double fl delay0 = fl (1000 + jitter0) \<and>
         double fl delay1 = fl (2000 + jitter1) \<and>
         0 \<le> jitter0 \<and> jitter0 < 1000 \<and> 0 \<le> jitter1 \<and> jitter1 < 1000 \<and>
         1000 \<le> double fl delay0 \<and> 2000 \<le> double fl delay1 \<and>
         3000 \<le> sum_list (map (double fl) (sleeps evs)) \<and>
         (\<forall>content. endpoint 2 = Response 200 (Reads content) \<longrightarrow>
            evs = [setBusy isSearch True, Fetch req, ConsoleWarn delay0, Sleep delay0] @
                  finally_block r isSearch 0 @
                  [Fetch req, ConsoleWarn delay1, Sleep delay1] @
                  finally_block r isSearch 1 @
                  [Fetch req, setResponse isSearch (responseText content)] @
                  finally_block r isSearch 2 \<and>
            responses isSearch evs = [responseText content] \<and>
            ret = Some (responseText content) \<and>
            (\<forall>c. content = Some c \<and> c \<noteq> [] \<longrightarrow>
               responses isSearch evs = [c] \<and> ret = Some c) \<and>
            (content = None \<or> content = Some [] \<longrightarrow>
               responses isSearch evs = [''No response received from AI.''] \<and>
               ret = Some ''No response received from AI.'')) \<and>
         (\<forall>status b2. endpoint 2 = Response status b2 \<and> \<not> ok status \<and> status \<noteq> 401 \<longrightarrow>
            evs = [setBusy isSearch True, Fetch req, ConsoleWarn delay0, Sleep delay0] @
                  finally_block r isSearch 0 @
                  [Fetch req, ConsoleWarn delay1, Sleep delay1] @
                  finally_block r isSearch 1 @
                  [Fetch req, setResponse isSearch (''AI Error: '' @ api_call_failed status)] @
                  finally_block r isSearch 2 \<and>
            responses isSearch evs = [''AI Error: '' @ api_call_failed status] \<and>
            ret = Some (''AI Error: '' @ api_call_failed status)) \<and>
         (\<forall>b2. endpoint 2 = Response 429 b2 \<longrightarrow>
            responses isSearch evs = [''AI Error: API call failed with status: 429''] \<and>
            ret = Some ''AI Error: API call failed with status: 429''))"
proof -
  let ?req = "ChatPost (pollinationsApiKey (settings r)) model prompt"
  obtain evs2 ret2 where last:
    "retry_loop r endpoint random prompt model isSearch 2 = (Fetch ?req # evs2, ret2)"
    and quiet: "fetches evs2 = []" "sleeps evs2 = []"
    using last_attempt [of r endpoint random prompt model isSearch] by blast
  note loop = two_retries [OF first second last]
  from random have u0: "0 \<le> random 0" "random 0 \<le> 1 - 1 / 2 ^ 53"
    and u1: "0 \<le> random 1" "random 1 \<le> 1 - 1 / 2 ^ 53"
    by simp_all
  note d0 = rounded_delay [OF mono exact nearest u0]
  note d1 = rounded_delay [OF mono exact nearest u1]
  have sum: "3000 \<le> fl (1000 + fl (random 0 * 1000)) + fl (2000 + fl (random 1 * 1000))"
    using d0(3) d1(5) by simp
  have ok3: "\<And>content. endpoint 2 = Response 200 (Reads content) \<Longrightarrow>
      evs2 = setResponse isSearch (responseText content) # finally_block r isSearch 2 \<and>
      ret2 = Some (responseText content)"
    using last by (simp add: last_attempt_ok)
  have ex3: "\<And>status b2. endpoint 2 = Response status b2 \<Longrightarrow> \<not> ok status \<Longrightarrow>
      status \<noteq> 401 \<Longrightarrow>
      evs2 = setResponse isSearch (''AI Error: '' @ api_call_failed status) #
             finally_block r isSearch 2 \<and>
      ret2 = Some (''AI Error: '' @ api_call_failed status)"
    using last by (simp add: last_attempt_fails)
  have limit: "\<not> ok 429" "(429::nat) \<noteq> 401"
    by (simp_all add: ok_def)
  have ex429: "\<And>b2. endpoint 2 = Response 429 b2 \<Longrightarrow>
      evs2 = setResponse isSearch ''AI Error: API call failed with status: 429'' #
             finally_block r isSearch 2 \<and>
      ret2 = Some ''AI Error: API call failed with status: 429''"
    using ex3 [OF _ limit] by (simp add: api_call_failed_429)
  have payload: "responseText (Some c) = c" if "c \<noteq> []" for c
    using that by (simp add: responseText_def)
  have placeholder: "responseText None = ''No response received from AI.''"
    "responseText (Some []) = ''No response received from AI.''"
    by (simp_all add: responseText_def)
  show ?thesis
    using key d0 d1 sum quiet ok3 ex3 ex429 payload placeholder
    by (auto simp add: callPollinationsChatAPI_def loop fetches_append sleeps_append
        responses_append finally_block_quiet Let_def)
qed

theorem rate_limit_retry_witness:
  "pollinationsApiKey
     (settings (first_render\<lparr>settings := DEFAULT_SETTINGS\<lparr>pollinationsApiKey := ''k''\<rparr>\<rparr>)) \<noteq> [] \<and>
   (\<forall>n. (0::real) \<le> (\<lambda>attempt::nat. 1 / 2) n \<and>
        (\<lambda>attempt::nat. 1 / 2) n \<le> (1::real) - 1 / 2 ^ 53) \<and>
   (\<forall>x. \<bar>(\<lambda>x::real. x) x - x\<bar> \<le> \<bar>(1000 - 1 / 2 ^ 43) - x\<bar>) \<and>
   (let (evs, ret) = callPollinationsChatAPI
          (first_render\<lparr>settings := DEFAULT_SETTINGS\<lparr>pollinationsApiKey := ''k''\<rparr>\<rparr>)
          (\<lambda>attempt. if attempt < 2 then Response 429 (Throws ''Unexpected token'')
                      else Response 200 (Reads (Some ''hi'')))
          (\<lambda>attempt. 1 / 2) ''hello'' ''openai'' False
    in length (fetches evs) = 3 \<and> map (double (\<lambda>x. x)) (sleeps evs) = [1500, 2500] \<and>
       responses False evs = [''hi''] \<and> ret = Some ''hi'') \<and>
   (let (evs, ret) = callPollinationsChatAPI
          (first_render\<lparr>settings := DEFAULT_SETTINGS\<lparr>pollinationsApiKey := ''k''\<rparr>\<rparr>)
          (\<lambda>attempt. if attempt < 2 then Response 429 (Throws ''Unexpected token'')
                      else Response 200 (Reads None))
          (\<lambda>attempt. 1 / 2) ''hello'' ''openai'' False
    in length (fetches evs) = 3 \<and> ret = Some ''No response received from AI.'') \<and>
   (let (evs, ret) = callPollinationsChatAPI
          (first_render\<lparr>settings := DEFAULT_SETTINGS\<lparr>pollinationsApiKey := ''k''\<rparr>\<rparr>)
          (\<lambda>attempt. Response 429 (Throws ''Unexpected token''))
          (\<lambda>attempt. 1 / 2) ''hello'' ''openai'' False
    in length (fetches evs) = 3 \<and> map (double (\<lambda>x. x)) (sleeps evs) = [1500, 2500] \<and>
       ret = Some ''AI Error: API call failed with status: 429'')"
proof -
  let ?r = "first_render\<lparr>settings := DEFAULT_SETTINGS\<lparr>pollinationsApiKey := ''k''\<rparr>\<rparr>"
  let ?random = "\<lambda>attempt::nat. (1::real) / 2"
  let ?fl = "\<lambda>x::real. x"
  let ?recovering = "\<lambda>attempt::nat. if attempt < 2 then Response 429 (Throws ''Unexpected token'')
                      else Response 200 (Reads (Some ''hi''))"
  let ?silent = "\<lambda>attempt::nat. if attempt < 2 then Response 429 (Throws ''Unexpected token'')
                      else Response 200 (Reads (None :: string option))"
  let ?limited =
    "\<lambda>attempt::nat. (Response 429 (Throws ''Unexpected token'') :: string option http_result)"
  have key: "pollinationsApiKey (settings ?r) \<noteq> []"
    by simp
  have random: "\<forall>n. 0 \<le> ?random n \<and> ?random n \<le> 1 - 1 / 2 ^ 53"
    by simp
  have mono: "\<forall>x y. x \<le> y \<longrightarrow> ?fl x \<le> ?fl y"
    by simp
  have exact: "\<forall>n::nat. n \<le> 2 ^ 53 \<longrightarrow> ?fl (real n) = real n"
    by simp
  have nearest: "\<forall>x. \<bar>?fl x - x\<bar> \<le> \<bar>(1000 - 1 / 2 ^ 43) - x\<bar>"
    by simp
  have a: "?recovering 0 = Response 429 (Throws ''Unexpected token'')"
    and b: "?recovering 1 = Response 429 (Throws ''Unexpected token'')"
    and a': "?silent 0 = Response 429 (Throws ''Unexpected token'')"
    and b': "?silent 1 = Response 429 (Throws ''Unexpected token'')"
    and c: "?limited 0 = Response 429 (Throws ''Unexpected token'')"
    and d: "?limited 1 = Response 429 (Throws ''Unexpected token'')"
    by simp_all
  show ?thesis
    using key random nearest
      rate_limit_retry [OF key random mono exact nearest a b,
        of "''hello''" "''openai''" False]
      rate_limit_retry [OF key random mono exact nearest a' b',
        of "''hello''" "''openai''" False]
      rate_limit_retry [OF key random mono exact nearest c d,
        of "''hello''" "''openai''" False]
    by (simp add: Let_def responseText_def split: prod.splits)
qed

text \<open>The claim as it was stated ends with a failure classified as a rate limit. The
  source has no such class. After three 429 answers the text written and returned is
  the one that the general \<open>throw\<close> gives for any failing status, here with 429 where a
  500 at the first attempt has 500; and the same text comes out of a call that met no
  rate limit at all, one request whose \<open>fetch\<close> rejects with that message.\<close>

theorem rate_limit_class_counterexample:
  "(let (evs, ret) = callPollinationsChatAPI
          (first_render\<lparr>settings := DEFAULT_SETTINGS\<lparr>pollinationsApiKey := ''k''\<rparr>\<rparr>)
          (\<lambda>attempt. Response 429 (Throws ''Unexpected token''))
          (\<lambda>attempt. 1 / 2) ''hello'' ''openai'' False
    in length (fetches evs) = 3 \<and>
       ret = Some (''AI Error: '' @ api_call_failed 429) \<and>
       ret = Some ''AI Error: API call failed with status: 429'') \<and>
   (let (evs, ret) = callPollinationsChatAPI
          (first_render\<lparr>settings := DEFAULT_SETTINGS\<lparr>pollinationsApiKey := ''k''\<rparr>\<rparr>)
          (\<lambda>attempt. Response 500 (Throws ''Unexpected token''))
          (\<lambda>attempt. 1 / 2) ''hello'' ''openai'' False
    in length (fetches evs) = 1 \<and>
       ret = Some (''AI Error: '' @ api_call_failed 500) \<and>
       ret = Some ''AI Error: API call failed with status: 500'') \<and>
   (let (evs, ret) = callPollinationsChatAPI
          (first_render\<lparr>settings := DEFAULT_SETTINGS\<lparr>pollinationsApiKey := ''k''\<rparr>\<rparr>)
          (\<lambda>attempt. Rejects ''API call failed with status: 429'')
          (\<lambda>attempt. 1 / 2) ''hello'' ''openai'' False
    in length (fetches evs) = 1 \<and> sleeps evs = [] \<and>
       ret = Some ''AI Error: API call failed with status: 429'') \<and>
   snd (try_attempt
          (first_render\<lparr>settings := DEFAULT_SETTINGS\<lparr>pollinationsApiKey := ''k''\<rparr>\<rparr>)
          (\<lambda>attempt. Response 429 (Throws ''Unexpected token''))
          (\<lambda>attempt. 1 / 2) ''hello'' ''openai'' False 2) = Thrown (api_call_failed 429) \<and>
   snd (try_attempt
          (first_render\<lparr>settings := DEFAULT_SETTINGS\<lparr>pollinationsApiKey := ''k''\<rparr>\<rparr>)
          (\<lambda>attempt. Response 500 (Throws ''Unexpected token''))
          (\<lambda>attempt. 1 / 2) ''hello'' ''openai'' False 0) = Thrown (api_call_failed 500)"
proof -
  have two: "Suc (Suc 0) = 2"
    by simp
  show ?thesis
    by (simp add: callPollinationsChatAPI_def retry_loop.simps [of _ _ _ _ _ _ 0]
        retry_loop.simps [of _ _ _ _ _ _ "Suc 0"] retry_loop.simps [of _ _ _ _ _ _ 2]
        try_attempt_def maxRetries_def ok_def Let_def two fetches_append sleeps_append
        finally_block_quiet api_call_failed_429 api_call_failed_500)
qed

text \<open>
  \<^bold>\<open>C5\<close>. While \<open>pollinationsApiKey\<close> is empty, \<open>callPollinationsChatAPI\<close> does one
  thing only: it writes \<open>Error: Pollinations API Key not set in settings.\<close> to the
  response field of the widget. It sends no request and does not write the busy flag.
  A chat or search submission with a prompt that is not blank (a blank one is ignored
  before the call) therefore writes the placeholder, then this text, then clears the
  input; the response field ends as this text and the busy flag of the widget keeps
  its value through all four states.
\<close>

theorem key_not_set:
  assumes "pollinationsApiKey (settings r) = []"
  shows
    "callPollinationsChatAPI r endpoint random prompt model isSearch =
       ([setResponse isSearch ''Error: Pollinations API Key not set in settings.''], None) \<and>
     fetches (fst (callPollinationsChatAPI r endpoint random prompt model isSearch)) = [] \<and>
     busy_writes isSearch
       (fst (callPollinationsChatAPI r endpoint random prompt model isSearch)) = [] \<and>
     (trim (aiChatQuery r) \<noteq> [] \<longrightarrow>
        (let evs = handleAIChatSubmit r endpoint random
         in evs = [SetAiChatResponse ''Thinking...'',
                   SetAiChatResponse ''Error: Pollinations API Key not set in settings.'',
                   SetAiChatQuery ''''] \<and>
            fetches evs = [] \<and>
            aiChatResponse (run evs st) = ''Error: Pollinations API Key not set in settings.'' \<and>
            map isAIChatting (states evs st) = replicate 4 (isAIChatting st))) \<and>
     (trim (aiSearchQuery r) \<noteq> [] \<longrightarrow>
        (let evs = handleAISearchSubmit r endpoint random
         in evs = [SetAiSearchResponse ''Searching the web...'',
                   SetAiSearchResponse ''Error: Pollinations API Key not set in settings.'',
                   SetAiSearchQuery ''''] \<and>
            fetches evs = [] \<and>
            aiSearchResponse (run evs st) =
              ''Error: Pollinations API Key not set in settings.'' \<and>
            map isAISearching (states evs st) = replicate 4 (isAISearching st)))"
proof -
  have call: "\<And>prompt model isSearch.
    callPollinationsChatAPI r endpoint random prompt model isSearch =
       ([setResponse isSearch ''Error: Pollinations API Key not set in settings.''], None)"
    using assms by (simp add: callPollinationsChatAPI_def)
  have four: "replicate 4 x = [x, x, x, x]" for x :: bool
    by (simp add: numeral_eq_Suc)
  show ?thesis
    by (simp add: call handleAIChatSubmit_def handleAISearchSubmit_def setResponse_def run_def
        four)
qed

theorem key_not_set_witness:
  "pollinationsApiKey (settings (first_render\<lparr>aiChatQuery := ''hello''\<rparr>)) = [] \<and>
   trim (aiChatQuery (first_render\<lparr>aiChatQuery := ''hello''\<rparr>)) \<noteq> [] \<and>
   handleAIChatSubmit (first_render\<lparr>aiChatQuery := ''hello''\<rparr>)
       (\<lambda>attempt. Response 200 (Reads (Some ''hi''))) (\<lambda>attempt. 0) =
     [SetAiChatResponse ''Thinking...'',
      SetAiChatResponse ''Error: Pollinations API Key not set in settings.'',
      SetAiChatQuery ''''] \<and>
   aiChatResponse
     (run (handleAIChatSubmit (first_render\<lparr>aiChatQuery := ''hello''\<rparr>)
             (\<lambda>attempt. Response 200 (Reads (Some ''hi''))) (\<lambda>attempt. 0))
        (first_render\<lparr>aiChatQuery := ''hello''\<rparr>)) =
     ''Error: Pollinations API Key not set in settings.'' \<and>
   map isAIChatting
     (states (handleAIChatSubmit (first_render\<lparr>aiChatQuery := ''hello''\<rparr>)
                (\<lambda>attempt. Response 200 (Reads (Some ''hi''))) (\<lambda>attempt. 0))
        (first_render\<lparr>aiChatQuery := ''hello''\<rparr>)) = [False, False, False, False]"
proof -
  have key: "pollinationsApiKey (settings (first_render\<lparr>aiChatQuery := ''hello''\<rparr>)) = []"
    by (simp add: first_render_def DEFAULT_SETTINGS_def)
  have prompt: "trim (aiChatQuery (first_render\<lparr>aiChatQuery := ''hello''\<rparr>)) \<noteq> []"
    by (simp add: trim_def is_space_def)
  have idle: "\<not> isAIChatting (first_render\<lparr>aiChatQuery := ''hello''\<rparr>)"
    by (simp add: first_render_def)
  have four: "replicate 4 x = [x, x, x, x]" for x :: bool
    by (simp add: numeral_eq_Suc)
  from key_not_set [OF key, where endpoint = "\<lambda>attempt. Response 200 (Reads (Some ''hi''))"
      and random = "\<lambda>attempt. 0" and st = "first_render\<lparr>aiChatQuery := ''hello''\<rparr>"] prompt
  have submit: "handleAIChatSubmit (first_render\<lparr>aiChatQuery := ''hello''\<rparr>)
       (\<lambda>attempt. Response 200 (Reads (Some ''hi''))) (\<lambda>attempt. 0) =
     [SetAiChatResponse ''Thinking...'',
      SetAiChatResponse ''Error: Pollinations API Key not set in settings.'',
      SetAiChatQuery '''']"
    and shown: "aiChatResponse
     (run (handleAIChatSubmit (first_render\<lparr>aiChatQuery := ''hello''\<rparr>)
             (\<lambda>attempt. Response 200 (Reads (Some ''hi''))) (\<lambda>attempt. 0))
        (first_render\<lparr>aiChatQuery := ''hello''\<rparr>)) =
     ''Error: Pollinations API Key not set in settings.''"
    and flag: "map isAIChatting
     (states (handleAIChatSubmit (first_render\<lparr>aiChatQuery := ''hello''\<rparr>)
                (\<lambda>attempt. Response 200 (Reads (Some ''hi''))) (\<lambda>attempt. 0))
        (first_render\<lparr>aiChatQuery := ''hello''\<rparr>)) =
     replicate 4 (isAIChatting (first_render\<lparr>aiChatQuery := ''hello''\<rparr>))"
    unfolding Let_def by blast+
  from key prompt submit shown flag idle show ?thesis
    unfolding four by (intro conjI) simp_all
qed

text \<open>
  \<^bold>\<open>C6\<close>. A call with a credential whose first answer is HTTP 401 sends exactly one
  request, takes no pause, and writes and returns the authentication error
  \<open>AI Error: Authentication failed. Check your API key.\<close>
\<close>

theorem unauthorized_no_retry:
  assumes "pollinationsApiKey (settings r) \<noteq> []"
    and "endpoint 0 = Response 401 rd"
  shows
    "(let (evs, ret) = callPollinationsChatAPI r endpoint random prompt model isSearch;
          req = ChatPost (pollinationsApiKey (settings r)) model prompt
      in evs = [setBusy isSearch True, Fetch req,
                setResponse isSearch ''AI Error: Authentication failed. Check your API key.''] @
               finally_block r isSearch 0 \<and>
         fetches evs = [req] \<and>
         sleeps evs = [] \<and>
         responses isSearch evs = [''AI Error: Authentication failed. Check your API key.''] \<and>
         ret = Some ''AI Error: Authentication failed. Check your API key.'')"
  using assms
  by (simp add: callPollinationsChatAPI_def retry_loop.simps [of _ _ _ _ _ _ 0] try_attempt_def
      maxRetries_def ok_def Let_def fetches_append sleeps_append responses_append
      finally_block_quiet)

theorem unauthorized_no_retry_witness:
  "pollinationsApiKey
     (settings (first_render\<lparr>settings := DEFAULT_SETTINGS\<lparr>pollinationsApiKey := ''k''\<rparr>\<rparr>)) \<noteq> [] \<and>
   (\<lambda>attempt. Response 401 (Throws ''Unexpected token'')) (0::nat) =
     (Response 401 (Throws ''Unexpected token'') :: string option http_result) \<and>
   fetches (fst (callPollinationsChatAPI
       (first_render\<lparr>settings := DEFAULT_SETTINGS\<lparr>pollinationsApiKey := ''k''\<rparr>\<rparr>)
       (\<lambda>attempt. Response 401 (Throws ''Unexpected token'')) (\<lambda>attempt. 0)
       ''hello'' ''openai'' False)) = [ChatPost ''k'' ''openai'' ''hello''] \<and>
   snd (callPollinationsChatAPI
       (first_render\<lparr>settings := DEFAULT_SETTINGS\<lparr>pollinationsApiKey := ''k''\<rparr>\<rparr>)
       (\<lambda>attempt. Response 401 (Throws ''Unexpected token'')) (\<lambda>attempt. 0)
       ''hello'' ''openai'' False) = Some ''AI Error: Authentication failed. Check your API key.''"
proof -
  have key: "pollinationsApiKey
      (settings (first_render\<lparr>settings := DEFAULT_SETTINGS\<lparr>pollinationsApiKey := ''k''\<rparr>\<rparr>)) \<noteq> []"
    by simp
  show ?thesis
    using unauthorized_no_retry [OF key,
        where endpoint = "\<lambda>attempt. Response 401 (Throws ''Unexpected token'')"
        and rd = "Throws ''Unexpected token''" and random = "\<lambda>attempt. 0"
        and prompt = "''hello''" and model = "''openai''" and isSearch = False]
    by (simp add: Let_def split: prod.splits)
qed

subsection \<open>The weather refresher\<close>

text \<open>
  \<^bold>\<open>C7\<close>. With an empty \<open>apiKey\<close> the refresher sends no request. It sets the loading
  flag and starts one timer of 800 ms whose callback writes the mock snapshot and
  clears the flag. The label of the mock snapshot ends in \<open>(Mock)\<close>, its condition is
  \<open>Clear Sky\<close>, and its temperature is 72 when the unit is \<open>F\<close> and 22 otherwise.
\<close>

theorem mock_weather:
  assumes "apiKey (settings r) = []"
  shows
    "(let evs = fetchWeather r geo endpoint
      in evs = [SetLoadingWeather True,
                SetTimeout 800 [SetWeather (mock_snapshot r), SetLoadingWeather False]] \<and>
         fetches evs = [] \<and>
         timers evs = [800] \<and>
         snapshots evs = [mock_snapshot r] \<and>
         weather (run evs st) = Some (mock_snapshot r) \<and>
         location_label (mock_snapshot r) = ''Rochester, MN '' @ ''(Mock)'' \<and>
         condition (mock_snapshot r) = ''Clear Sky'' \<and>
         temp (mock_snapshot r) = TempNumber (if unit (settings r) = ''F'' then 72 else 22))"
  using assms by (simp add: fetchWeather_def run_def mock_snapshot_def)

theorem mock_weather_witness:
  "apiKey (settings first_render) = [] \<and>
   unit (settings first_render) = ''F'' \<and>
   fetches (fetchWeather first_render Denied (Rejects ''offline'')) = [] \<and>
   weather (run (fetchWeather first_render Denied (Rejects ''offline'')) first_render) =
     Some \<lparr>temp = TempNumber 72, condition = ''Clear Sky'',
           location_label = ''Rochester, MN (Mock)'', icon = ''01d'', humidity = 45, wind = 12\<rparr>"
proof -
  have key: "apiKey (settings first_render) = []"
    by (simp add: first_render_def DEFAULT_SETTINGS_def)
  have u: "unit (settings first_render) = ''F''"
    by (simp add: first_render_def DEFAULT_SETTINGS_def)
  show ?thesis
    using key u mock_weather [OF key, where geo = Denied and endpoint = "Rejects ''offline''"
        and st = first_render]
    by (simp add: Let_def mock_snapshot_def run_def)
qed

text \<open>
  \<^bold>\<open>C10\<close>. With an empty \<open>apiKey\<close> the label of the snapshot that the refresher
  leaves in the state is the constant \<open>Rochester, MN (Mock)\<close>, whatever the
  \<open>location\<close> field and the \<open>isAutoLocation\<close> toggle of the settings are.
\<close>

theorem mock_label_constant:
  assumes "apiKey (settings r) = []"
  shows
    "map_option location_label
       (weather (run (fetchWeather
                        (r\<lparr>settings := (settings r)\<lparr>location := city, isAutoLocation := auto\<rparr>\<rparr>)
                        geo endpoint) st)) =
     Some ''Rochester, MN (Mock)''"
  using assms by (simp add: fetchWeather_def run_def mock_snapshot_def)

theorem mock_label_constant_witness:
  "apiKey (settings first_render) = [] \<and>
   map_option location_label
     (weather (run (fetchWeather
                      (first_render\<lparr>settings := (settings first_render)
                          \<lparr>location := ''Tokyo'', isAutoLocation := True\<rparr>\<rparr>)
                      (Coords 35 139) (Rejects ''offline'')) first_render)) =
   Some ''Rochester, MN (Mock)''"
proof -
  have key: "apiKey (settings first_render) = []"
    by (simp add: first_render_def DEFAULT_SETTINGS_def)
  show ?thesis
    using key mock_label_constant [OF key, where city = "''Tokyo''" and auto = True
        and geo = "Coords 35 139" and endpoint = "Rejects ''offline''" and st = first_render]
    by simp
qed

lemma weather_request_fails:
  "request_fails endpoint \<Longrightarrow>
   weather_request r endpoint query =
     ([Fetch (WeatherGet query (apiKey (settings r))
               (if unit (settings r) = ''F'' then ''imperial'' else ''metric''))], True)"
  by (auto simp: request_fails_def weather_request_def Let_def
      split: http_result.splits reading.splits)

lemma weather_try_fails:
  "(isAutoLocation (settings r) \<and> geo = Denied) \<or> request_fails endpoint \<Longrightarrow>
   \<exists>evs. weather_try r geo endpoint = (evs, True) \<and> snapshots evs = [] \<and>
     run evs st = st"
  by (cases geo) (auto simp: weather_try_def weather_request_fails run_def)

text \<open>
  \<^bold>\<open>C8\<close>. With an \<open>apiKey\<close>, when the position is refused (with \<open>isAutoLocation\<close>),
  \<open>fetch\<close> rejects, the status is not a success or reading the answer throws, the
  refresher writes exactly one snapshot, the error snapshot: temperature \<open>--\<close>,
  condition \<open>API Error\<close>, label \<open>Check Key\<close>, icon \<open>unknown\<close>, humidity 0 and wind 0.
  It is the snapshot of the state afterwards, whatever snapshot the state held before,
  and the loading flag is cleared.
\<close>

theorem weather_error_snapshot:
  assumes "apiKey (settings r) \<noteq> []"
    and "(isAutoLocation (settings r) \<and> geo = Denied) \<or> request_fails endpoint"
  shows
    "(let evs = fetchWeather r geo endpoint
      in snapshots evs = [error_snapshot] \<and>
         weather (run evs st) = Some error_snapshot \<and>
         loadingWeather (run evs st) = False \<and>
         error_snapshot =
           \<lparr>temp = TempString ''--'', condition = ''API Error'', location_label = ''Check Key'',
            icon = ''unknown'', humidity = 0, wind = 0\<rparr>)"
proof -
  obtain evs where tried: "weather_try r geo endpoint = (evs, True)"
    and quiet: "snapshots evs = []"
      "run evs (st\<lparr>loadingWeather := True\<rparr>) = st\<lparr>loadingWeather := True\<rparr>"
    using weather_try_fails [OF assms(2), of "st\<lparr>loadingWeather := True\<rparr>"] by blast
  show ?thesis
    using assms(1) quiet
    by (simp add: fetchWeather_def tried Let_def snapshots_append run_append run_Cons run_Nil
        error_snapshot_def)
qed

theorem weather_error_snapshot_witness:
  "apiKey (settings (first_render\<lparr>settings := DEFAULT_SETTINGS\<lparr>apiKey := ''k''\<rparr>\<rparr>)) \<noteq> [] \<and>
   request_fails (Response 401 (Throws ''Unexpected token'') :: weather_data http_result) \<and>
   weather (run (fetchWeather (first_render\<lparr>settings := DEFAULT_SETTINGS\<lparr>apiKey := ''k''\<rparr>\<rparr>)
                   Denied (Response 401 (Throws ''Unexpected token'')))
              (first_render\<lparr>weather := Some (mock_snapshot first_render)\<rparr>)) =
     Some \<lparr>temp = TempString ''--'', condition = ''API Error'', location_label = ''Check Key'',
            icon = ''unknown'', humidity = 0, wind = 0\<rparr> \<and>
   isAutoLocation (settings (first_render\<lparr>settings := DEFAULT_SETTINGS
       \<lparr>apiKey := ''k'', isAutoLocation := True\<rparr>\<rparr>)) \<and>
   weather (run (fetchWeather
                   (first_render\<lparr>settings := DEFAULT_SETTINGS
                      \<lparr>apiKey := ''k'', isAutoLocation := True\<rparr>\<rparr>)
                   Denied
                   (Response 200 (Reads \<lparr>main_temp = 71.6, weather0_description = ''light rain'',
                      data_name = ''Tokyo'', weather0_icon = ''10d'', main_humidity = 80,
                      wind_speed = 3.5\<rparr>)))
              (first_render\<lparr>weather := Some (mock_snapshot first_render)\<rparr>)) =
     Some \<lparr>temp = TempString ''--'', condition = ''API Error'', location_label = ''Check Key'',
            icon = ''unknown'', humidity = 0, wind = 0\<rparr>"
proof -
  let ?r = "first_render\<lparr>settings := DEFAULT_SETTINGS\<lparr>apiKey := ''k''\<rparr>\<rparr>"
  let ?auto = "first_render\<lparr>settings := DEFAULT_SETTINGS
      \<lparr>apiKey := ''k'', isAutoLocation := True\<rparr>\<rparr>"
  let ?fine = "Response 200 (Reads \<lparr>main_temp = 71.6, weather0_description = ''light rain'',
      data_name = ''Tokyo'', weather0_icon = ''10d'', main_humidity = 80, wind_speed = 3.5\<rparr>)"
  have key: "apiKey (settings ?r) \<noteq> []" and key': "apiKey (settings ?auto) \<noteq> []"
    by simp_all
  have fails: "request_fails (Response 401 (Throws ''Unexpected token'') :: weather_data http_result)"
    by (simp add: request_fails_def ok_def)
  have auto: "isAutoLocation (settings ?auto)"
    by simp
  have cause: "(isAutoLocation (settings ?r) \<and> Denied = Denied) \<or>
      request_fails (Response 401 (Throws ''Unexpected token'') :: weather_data http_result)"
    using fails by simp
  have cause': "(isAutoLocation (settings ?auto) \<and> Denied = Denied) \<or> request_fails ?fine"
    using auto by simp
  show ?thesis
    using key fails auto
      weather_error_snapshot [OF key cause,
        where st = "first_render\<lparr>weather := Some (mock_snapshot first_render)\<rparr>"]
      weather_error_snapshot [OF key' cause',
        where st = "first_render\<lparr>weather := Some (mock_snapshot first_render)\<rparr>"]
    by (simp add: Let_def)
qed

subsection \<open>The wallpaper generator\<close>

lemma handleGenerateWallpaper_fails:
  assumes "trim (wallpaperPrompt r) \<noteq> []" and "pollinationsApiKey (settings r) \<noteq> []"
    and "no_image endpoint"
  shows "\<exists>msg. handleGenerateWallpaper r endpoint =
     [SetIsGeneratingWallpaper True,
      SetSettingsMessage ''Generating image... this may take up to a minute.'',
      Fetch (ImagePost (pollinationsApiKey (settings r))
               (wallpaperPrompt r @ '', 16:9 background, wallpaper, 4k'') ''nanobanana-pro''
               1920 1080),
      SetSettingsMessage (''Image generation error. Check prompt and key. ('' @ msg @ '')''),
      SetSettingsWallpaper (url (WALLPAPERS ! 0)),
      SetIsGeneratingWallpaper False]"
  using assms
  by (auto simp: handleGenerateWallpaper_def no_image_def wallpaper_catch_def Let_def
      split: http_result.splits reading.splits)

text \<open>
  \<^bold>\<open>C9\<close>. When the prompt is not blank and a credential is set, and the request fails
  (\<open>fetch\<close> rejects, the status is not a success, reading the answer throws) or the
  answer has no usable \<open>url\<close>, the generator sends its one request and then leaves
  \<open>settings.wallpaper\<close> equal to the URL of the first preset, whatever it was before,
  with the message \<open>Image generation error. Check prompt and key. (...)\<close> shown, the
  busy flag cleared and the new record written through to \<open>localStorage\<close>.
\<close>

theorem wallpaper_revert:
  assumes "trim (wallpaperPrompt r) \<noteq> []" and "pollinationsApiKey (settings r) \<noteq> []"
    and "no_image endpoint"
  shows
    "(let evs = handleGenerateWallpaper r endpoint; st' = run evs st
      in wallpaper (settings st') = url (WALLPAPERS ! 0) \<and>
         url (WALLPAPERS ! 0) =
           ''https://images.unsplash.com/photo-1550684848-fac1c5b4e853?q=80&w=2070&auto=format&fit=crop'' \<and>
         (\<exists>msg. settingsMessage st' =
            Some (''Image generation error. Check prompt and key. ('' @ msg @ '')'')) \<and>
         isGeneratingWallpaper st' = False \<and>
         length (fetches evs) = 1 \<and>
         localStorage st' ''dashboardSettings'' = Some (JSON_stringify (settings st')))"
proof -
  obtain msg where evs: "handleGenerateWallpaper r endpoint =
     [SetIsGeneratingWallpaper True,
      SetSettingsMessage ''Generating image... this may take up to a minute.'',
      Fetch (ImagePost (pollinationsApiKey (settings r))
               (wallpaperPrompt r @ '', 16:9 background, wallpaper, 4k'') ''nanobanana-pro''
               1920 1080),
      SetSettingsMessage (''Image generation error. Check prompt and key. ('' @ msg @ '')''),
      SetSettingsWallpaper (url (WALLPAPERS ! 0)),
      SetIsGeneratingWallpaper False]"
    using handleGenerateWallpaper_fails [OF assms] by blast
  have first: "url (WALLPAPERS ! 0) =
      ''https://images.unsplash.com/photo-1550684848-fac1c5b4e853?q=80&w=2070&auto=format&fit=crop''"
    by (simp add: WALLPAPERS_def)
  show ?thesis
    unfolding Let_def evs
    by (simp add: run_def setSettings_def first)
qed

theorem wallpaper_revert_witness:
  "trim (wallpaperPrompt (first_render\<lparr>settings := DEFAULT_SETTINGS
        \<lparr>pollinationsApiKey := ''k'', wallpaper := ''https://example.org/old.png''\<rparr>,
        wallpaperPrompt := ''a forest''\<rparr>)) \<noteq> [] \<and>
   no_image (Response 500 (Throws ''Unexpected token'')) \<and>
   no_image (Response 200 (Reads None)) \<and>
   wallpaper (settings (run (handleGenerateWallpaper
        (first_render\<lparr>settings := DEFAULT_SETTINGS
           \<lparr>pollinationsApiKey := ''k'', wallpaper := ''https://example.org/old.png''\<rparr>,
           wallpaperPrompt := ''a forest''\<rparr>)
        (Response 500 (Throws ''Unexpected token'')))
      (first_render\<lparr>settings := DEFAULT_SETTINGS
           \<lparr>pollinationsApiKey := ''k'', wallpaper := ''https://example.org/old.png''\<rparr>,
           wallpaperPrompt := ''a forest''\<rparr>))) =
     ''https://images.unsplash.com/photo-1550684848-fac1c5b4e853?q=80&w=2070&auto=format&fit=crop'' \<and>
   wallpaper (settings (run (handleGenerateWallpaper
        (first_render\<lparr>settings := DEFAULT_SETTINGS
           \<lparr>pollinationsApiKey := ''k'', wallpaper := ''https://example.org/old.png''\<rparr>,
           wallpaperPrompt := ''a forest''\<rparr>)
        (Response 200 (Reads None)))
      (first_render\<lparr>settings := DEFAULT_SETTINGS
           \<lparr>pollinationsApiKey := ''k'', wallpaper := ''https://example.org/old.png''\<rparr>,
           wallpaperPrompt := ''a forest''\<rparr>))) =
     ''https://images.unsplash.com/photo-1550684848-fac1c5b4e853?q=80&w=2070&auto=format&fit=crop''"
proof -
  let ?r = "first_render\<lparr>settings := DEFAULT_SETTINGS
        \<lparr>pollinationsApiKey := ''k'', wallpaper := ''https://example.org/old.png''\<rparr>,
        wallpaperPrompt := ''a forest''\<rparr>"
  have prompt: "trim (wallpaperPrompt ?r) \<noteq> []"
    by (simp add: trim_def is_space_def)
  have key: "pollinationsApiKey (settings ?r) \<noteq> []"
    by simp
  have a: "no_image (Response 500 (Throws ''Unexpected token''))"
    and b: "no_image (Response 200 (Reads None))"
    by (simp_all add: no_image_def ok_def)
  show ?thesis
    using prompt a b
      wallpaper_revert [OF prompt key a, where st = ?r]
      wallpaper_revert [OF prompt key b, where st = ?r]
    by (simp add: Let_def)
qed

subsection \<open>Persistence\<close>

lemma persisted_mount: "persisted (mount st)"
  by (simp add: persisted_def mount_def)

lemma persisted_setNotes: "persisted st \<Longrightarrow> persisted (setNotes v st)"
  by (simp add: persisted_def setNotes_def)

lemma persisted_onSettingsInput: "persisted st \<Longrightarrow> persisted (onSettingsInput input st)"
  by (cases input) (simp_all add: persisted_def setSettings_def)

lemma persisted_fold:
  "(\<And>e st. e \<in> set evs \<Longrightarrow> persisted st \<Longrightarrow> persisted (apply_event e st)) \<Longrightarrow>
   persisted st \<Longrightarrow> persisted (fold apply_event evs st)"
  by (induction evs arbitrary: st) simp_all

lemma persisted_apply_event: "persisted st \<Longrightarrow> persisted (apply_event e st)"
proof (induction e st rule: apply_event.induct)
  case (1 ms callback st)
  then show ?case
    by (simp add: persisted_fold)
qed (simp_all add: persisted_def setSettings_def)

lemma persisted_run: "persisted st \<Longrightarrow> persisted (run evs st)"
  unfolding run_def by (rule persisted_fold) (simp_all add: persisted_apply_event)

text \<open>
  \<^bold>\<open>C3\<close>, amended in the names of the keys. After every change of the settings
  record (\<open>setSettings\<close>, so each control of the settings dialog and the functional
  update of the wallpaper generator), the value of \<open>localStorage\<close> under the key
  \<open>dashboardSettings\<close> is the JSON serialisation of the new record; after every change
  of the notes, the value under the key \<open>dashboardNotes\<close> is the new string. Both keys
  are written after the first render, and from then on every input of the settings
  dialog, every edit of the notes and every run of effects leaves the store in
  agreement with the state.
\<close>

theorem write_through:
  "settings (setSettings s st) = s \<and>
   localStorage (setSettings s st) ''dashboardSettings'' = Some (JSON_stringify s) \<and>
   localStorage (onSettingsInput input st) ''dashboardSettings'' =
     Some (JSON_stringify (settings (onSettingsInput input st))) \<and>
   localStorage (apply_event (SetSettingsWallpaper u) st) ''dashboardSettings'' =
     Some (JSON_stringify (settings (apply_event (SetSettingsWallpaper u) st))) \<and>
   (v \<noteq> notes_text st \<longrightarrow>
      notes_text (setNotes v st) = v \<and>
      localStorage (setNotes v st) ''dashboardNotes'' = Some v) \<and>
   persisted (mount st) \<and>
   (persisted st \<longrightarrow>
      persisted (onSettingsInput input st) \<and>
      persisted (setNotes v st) \<and>
      persisted (run evs st))"
proof -
  have direct: "localStorage (onSettingsInput input st) ''dashboardSettings'' =
     Some (JSON_stringify (settings (onSettingsInput input st)))"
    by (cases input) (simp_all add: setSettings_def)
  have edit: "v \<noteq> notes_text st \<longrightarrow>
      notes_text (setNotes v st) = v \<and>
      localStorage (setNotes v st) ''dashboardNotes'' = Some v"
    by (simp add: setNotes_def)
  have kept: "persisted st \<longrightarrow>
      persisted (onSettingsInput input st) \<and>
      persisted (setNotes v st) \<and>
      persisted (run evs st)"
    by (simp add: persisted_onSettingsInput persisted_setNotes persisted_run)
  from direct edit kept show ?thesis
    by (simp add: setSettings_def persisted_mount)
qed

theorem write_through_witness:
  "''milk'' \<noteq> notes_text first_render \<and>
   localStorage (setNotes ''milk'' first_render) ''dashboardNotes'' = Some ''milk'' \<and>
   localStorage (onSettingsInput (UnitButton ''C'') first_render) ''dashboardSettings'' =
     Some (JSON_stringify (DEFAULT_SETTINGS\<lparr>unit := ''C''\<rparr>)) \<and>
   persisted (mount first_render) \<and>
   persisted (onSettingsInput (UnitButton ''C'') (mount first_render)) \<and>
   persisted (setNotes ''milk'' (mount first_render))"
proof -
  have changed: "''milk'' \<noteq> notes_text first_render"
    by (simp add: first_render_def)
  have s: "settings first_render = DEFAULT_SETTINGS"
    by (simp add: first_render_def)
  note fresh = write_through [where v = "''milk''" and st = first_render
      and input = "UnitButton ''C''" and s = DEFAULT_SETTINGS and u = "''x''" and evs = "[]"]
  from fresh have mounted: "persisted (mount first_render)"
    by blast
  note later = write_through [where v = "''milk''" and st = "mount first_render"
      and input = "UnitButton ''C''" and s = DEFAULT_SETTINGS and u = "''x''" and evs = "[]"]
  from later mounted
  have kept: "persisted (onSettingsInput (UnitButton ''C'') (mount first_render))"
    "persisted (setNotes ''milk'' (mount first_render))"
    by blast+
  from fresh changed
  have noted: "localStorage (setNotes ''milk'' first_render) ''dashboardNotes'' = Some ''milk''"
    by blast
  from fresh
  have unit: "localStorage (onSettingsInput (UnitButton ''C'') first_render) ''dashboardSettings'' =
     Some (JSON_stringify (settings (onSettingsInput (UnitButton ''C'') first_render)))"
    by blast
  have "settings (onSettingsInput (UnitButton ''C'') first_render) = DEFAULT_SETTINGS\<lparr>unit := ''C''\<rparr>"
    by (simp add: s setSettings_def)
  with unit changed noted mounted kept show ?thesis
    by simp
qed

text \<open>The keys \<open>settings\<close> and \<open>notes\<close> are never written: after a change of the unit
  and a change of the notes on the first render they hold nothing.\<close>

theorem store_keys_counterexample:
  "localStorage (onSettingsInput (UnitButton ''C'') first_render) ''settings'' \<noteq>
     Some (JSON_stringify (settings (onSettingsInput (UnitButton ''C'') first_render))) \<and>
   localStorage (setNotes ''milk'' first_render) ''notes'' \<noteq> Some ''milk''"
  by (simp add: first_render_def setSettings_def setNotes_def)

subsection \<open>Start-up\<close>

lemma parse_brace: "JSON_parse ''{'' = Inl SyntaxError"
  by code_simp

lemma parse_42: "JSON_parse ''42'' = Inr (JNumber ''42'')"
  by code_simp

lemma parse_empty_object: "JSON_parse ''{}'' = Inr (JObject [])"
  by code_simp

text \<open>
  \<^bold>\<open>C2\<close>, amended. The settings loaded at start-up are the default record when
  \<open>localStorage\<close> holds no value under \<open>dashboardSettings\<close>, or the empty string. Any
  other stored value goes to \<open>JSON.parse\<close> and the result is taken as it is, with no
  check of its shape; when the value is not JSON, the \<open>SyntaxError\<close> of \<open>JSON.parse\<close>
  is the outcome of loading.
\<close>

theorem load_default_when_absent:
  "(store ''dashboardSettings'' = None \<longrightarrow>
      load store = Inr (json_of_settings DEFAULT_SETTINGS)) \<and>
   (store ''dashboardSettings'' = Some [] \<longrightarrow>
      load store = Inr (json_of_settings DEFAULT_SETTINGS)) \<and>
   (\<forall>saved. store ''dashboardSettings'' = Some saved \<and> saved \<noteq> [] \<longrightarrow>
      load store = JSON_parse saved)"
  by (simp add: load_def)

theorem load_default_when_absent_witness:
  "(Map.empty :: string \<rightharpoonup> string) ''dashboardSettings'' = None \<and>
   load Map.empty = Inr (json_of_settings DEFAULT_SETTINGS) \<and>
   (Map.empty(''dashboardSettings'' \<mapsto> '''')) ''dashboardSettings'' = Some [] \<and>
   load (Map.empty(''dashboardSettings'' \<mapsto> '''')) = Inr (json_of_settings DEFAULT_SETTINGS) \<and>
   (Map.empty(''dashboardSettings'' \<mapsto> ''{}'')) ''dashboardSettings'' = Some ''{}'' \<and>
   ''{}'' \<noteq> '''' \<and>
   load (Map.empty(''dashboardSettings'' \<mapsto> ''{}'')) = Inr (JObject [])"
  using load_default_when_absent [of Map.empty]
    load_default_when_absent [of "Map.empty(''dashboardSettings'' \<mapsto> '''')"]
    load_default_when_absent [of "Map.empty(''dashboardSettings'' \<mapsto> ''{}'')"]
  by (simp add: parse_empty_object)

text \<open>A stored \<open>{\<close> is not JSON: loading fails. A stored \<open>42\<close> is JSON of another
  shape: loading yields the number.\<close>

theorem load_corrupted_counterexample:
  "load (Map.empty(''dashboardSettings'' \<mapsto> ''{'')) = Inl SyntaxError \<and>
   load (Map.empty(''dashboardSettings'' \<mapsto> ''{'')) \<noteq> Inr (json_of_settings DEFAULT_SETTINGS) \<and>
   load (Map.empty(''dashboardSettings'' \<mapsto> ''42'')) = Inr (JNumber ''42'') \<and>
   load (Map.empty(''dashboardSettings'' \<mapsto> ''42'')) \<noteq> Inr (json_of_settings DEFAULT_SETTINGS)"
  by (simp add: load_def parse_brace parse_42 json_of_settings_def)

end
